theory Spec2Isabelle
  imports Complex_Main "HOL-Library.Sublist"
begin

section \<open>JavaScript values\<close>

subsection \<open>Numbers\<close>

text \<open>
  The counts the upstream sends (kills, gold, seconds, milliseconds) are non-negative
  integers below \<open>2^53\<close>; on those, JavaScript's \<open>+\<close>, \<open>%\<close>, \<open>Math.floor\<close> of a quotient and
  \<open>Math.max\<close> are exact, and they are modelled on \<open>nat\<close>. The results of \<open>/\<close> and \<open>*\<close> are
  IEEE 754 doubles: a finite double is the rational it denotes, \<open>fl\<close> rounds a rational
  to the nearest double (53 significant bits, ties to even). The exponent range is not
  bounded here (no overflow to infinity, no subnormals), and zero has no sign: every
  operand below is a non-negative count, and no quotient of two counts below \<open>2^53\<close>
  leaves the normal range.
\<close>

datatype number = Fin rat | PosInf | NegInf | NaN

function bitlen :: "int \<Rightarrow> int" where
  "bitlen n = (if 0 < n then bitlen (n div 2) + 1 else 0)"
  by pat_completeness auto
termination
  by (relation "measure nat") auto

declare bitlen.simps [simp del]

definition pow2 :: "int \<Rightarrow> rat" where
  "pow2 e = (if 0 \<le> e then 2 ^ nat e else 1 / 2 ^ nat (- e))"

definition binexp :: "rat \<Rightarrow> int" where
  \<comment> \<open>for \<open>0 < q\<close>: the \<open>e\<close> with \<open>2^e \<le> q < 2^(e+1)\<close>\<close>
  "binexp q = (if 1 \<le> q then bitlen \<lfloor>q\<rfloor> - 1 else - bitlen (\<lceil>1 / q\<rceil> - 1))"

definition round_half_even :: "rat \<Rightarrow> int" where
  "round_half_even q =
     (let f = \<lfloor>q\<rfloor>; r = q - of_int f
      in if r < 1 / 2 then f else if 1 / 2 < r then f + 1
         else if even f then f else f + 1)"

definition fl :: "rat \<Rightarrow> rat" where
  "fl q = (if q = 0 then 0
           else let a = \<bar>q\<bar>; e = binexp a; m = round_half_even (a / pow2 (e - 52))
                in sgn q * (of_int m * pow2 (e - 52)))"

definition Num :: "nat \<Rightarrow> number" where
  "Num n = Fin (of_nat n)"

fun js_div :: "number \<Rightarrow> number \<Rightarrow> number" where
  "js_div (Fin x) (Fin y) =
     (if y = 0 then (if x = 0 then NaN else if 0 < x then PosInf else NegInf)
      else Fin (fl (x / y)))"
| "js_div NaN _ = NaN"
| "js_div _ NaN = NaN"
| "js_div (Fin x) _ = Fin 0"
| "js_div PosInf (Fin y) = (if 0 \<le> y then PosInf else NegInf)"
| "js_div NegInf (Fin y) = (if 0 \<le> y then NegInf else PosInf)"
| "js_div _ _ = NaN"

fun js_mul :: "number \<Rightarrow> number \<Rightarrow> number" where
  "js_mul (Fin x) (Fin y) = Fin (fl (x * y))"
| "js_mul NaN _ = NaN"
| "js_mul _ NaN = NaN"
| "js_mul (Fin x) PosInf = (if x = 0 then NaN else if 0 < x then PosInf else NegInf)"
| "js_mul (Fin x) NegInf = (if x = 0 then NaN else if 0 < x then NegInf else PosInf)"
| "js_mul PosInf (Fin y) = (if y = 0 then NaN else if 0 < y then PosInf else NegInf)"
| "js_mul NegInf (Fin y) = (if y = 0 then NaN else if 0 < y then NegInf else PosInf)"
| "js_mul PosInf PosInf = PosInf"
| "js_mul NegInf NegInf = PosInf"
| "js_mul _ _ = NegInf"

fun js_sub :: "number \<Rightarrow> number \<Rightarrow> number" where
  "js_sub (Fin x) (Fin y) = Fin (fl (x - y))"
| "js_sub NaN _ = NaN"
| "js_sub _ NaN = NaN"
| "js_sub PosInf PosInf = NaN"
| "js_sub NegInf NegInf = NaN"
| "js_sub PosInf _ = PosInf"
| "js_sub NegInf _ = NegInf"
| "js_sub (Fin x) PosInf = NegInf"
| "js_sub (Fin x) NegInf = PosInf"

text \<open>\<open>Math.round\<close>: the nearest integer, a tie going up.\<close>

fun Math_round :: "number \<Rightarrow> number" where
  "Math_round (Fin x) = Fin (of_int \<lfloor>x + 1 / 2\<rfloor>)"
| "Math_round v = v"

text \<open>Whether a comparator's result is \<open>> 0\<close> (\<open>NaN\<close> is not).\<close>

fun positive :: "number \<Rightarrow> bool" where
  "positive (Fin x) = (0 < x)"
| "positive PosInf = True"
| "positive _ = False"

subsection \<open>Numbers and strings\<close>

definition digit_char :: "nat \<Rightarrow> char" where
  "digit_char d = ''0123456789'' ! d"

fun string_of_nat :: "nat \<Rightarrow> string" where
  "string_of_nat n =
     (if n < 10 then [digit_char n] else string_of_nat (n div 10) @ [digit_char (n mod 10)])"

declare string_of_nat.simps [simp del]

text \<open>
  \<open>Number.prototype.toFixed\<close>: for a finite \<open>x \<ge> 0\<close> the integer \<open>n\<close> with \<open>n / 10^f\<close>
  nearest to \<open>x\<close> (the larger one of two), printed with at least \<open>f + 1\<close> digits and a
  point before the last \<open>f\<close>; a negative \<open>x\<close> prints as \<open>-\<close> and then \<open>- x\<close>. Values of
  \<open>10^21\<close> and more, which JavaScript prints in exponent notation, do not arise.
\<close>

definition fixed_digits :: "nat \<Rightarrow> rat \<Rightarrow> string" where
  "fixed_digits f x =
     (let n = nat \<lfloor>x * 10 ^ f + 1 / 2\<rfloor>;
          m = string_of_nat n;
          m = (if length m \<le> f then replicate (f + 1 - length m) CHR ''0'' @ m else m);
          k = length m
      in if f = 0 then m else take (k - f) m @ ''.'' @ drop (k - f) m)"

fun toFixed :: "nat \<Rightarrow> number \<Rightarrow> string" where
  "toFixed f (Fin x) = (if x < 0 then ''-'' @ fixed_digits f (- x) else fixed_digits f x)"
| "toFixed f PosInf = ''Infinity''"
| "toFixed f NegInf = ''-Infinity''"
| "toFixed f NaN = ''NaN''"

text \<open>
  \<open>Number(s)\<close> on the strings \<open>toFixed\<close> produces: an optional sign, digits, and
  optionally a point and more digits; anything else is \<open>NaN\<close> here.
\<close>

definition is_digit :: "char \<Rightarrow> bool" where
  "is_digit c = (c \<in> set ''0123456789'')"

definition nat_of_digits :: "string \<Rightarrow> nat" where
  "nat_of_digits ds = foldl (\<lambda>a c. 10 * a + (of_char c - 48)) 0 ds"

definition StrDecimalLiteral :: "string \<Rightarrow> rat option" where
  "StrDecimalLiteral s =
     (let a = takeWhile is_digit s; rest = dropWhile is_digit s
      in case rest of
           [] \<Rightarrow> if a = [] then None else Some (of_nat (nat_of_digits a))
         | c # b \<Rightarrow>
             if c = CHR ''.'' \<and> list_all is_digit b \<and> (a \<noteq> [] \<or> b \<noteq> [])
             then Some (of_nat (nat_of_digits a) + of_nat (nat_of_digits b) / 10 ^ length b)
             else None)"

definition Number_of_string :: "string \<Rightarrow> number" where
  "Number_of_string s =
     (if s = ''Infinity'' then PosInf
      else if s = ''-Infinity'' then NegInf
      else case s of
             [] \<Rightarrow> NaN
           | c # t \<Rightarrow>
               if c = CHR ''-''
               then (case StrDecimalLiteral t of None \<Rightarrow> NaN | Some q \<Rightarrow> Fin (fl (- q)))
               else (case StrDecimalLiteral s of None \<Rightarrow> NaN | Some q \<Rightarrow> Fin (fl q)))"

definition string_of_int :: "int \<Rightarrow> string" where
  "string_of_int i = (if i < 0 then ''-'' @ string_of_nat (nat (- i)) else string_of_nat (nat i))"

definition padStart :: "nat \<Rightarrow> char \<Rightarrow> string \<Rightarrow> string" where
  "padStart n c str = replicate (n - length str) c @ str"

subsection \<open>Arrays\<close>

text \<open>
  \<open>Array.prototype.sort(cmp)\<close> is stable. It is modelled as the insertion of each element
  in front of the already sorted rest, before the first element it need not follow:
  \<open>x\<close> stays in front of \<open>y\<close> unless \<open>cmp(x, y) > 0\<close>.
\<close>

fun insert_sorted :: "('a \<Rightarrow> 'a \<Rightarrow> number) \<Rightarrow> 'a \<Rightarrow> 'a list \<Rightarrow> 'a list" where
  "insert_sorted cmp x [] = [x]"
| "insert_sorted cmp x (y # ys) =
     (if positive (cmp x y) then y # insert_sorted cmp x ys else x # y # ys)"

definition Array_sort :: "('a \<Rightarrow> 'a \<Rightarrow> number) \<Rightarrow> 'a list \<Rightarrow> 'a list" where
  "Array_sort cmp xs = foldr (insert_sorted cmp) xs []"

text \<open>\<open>.filter(Boolean)\<close> on an array of objects and \<open>null\<close>s.\<close>

primrec filter_Boolean :: "'a option list \<Rightarrow> 'a list" where
  "filter_Boolean [] = []"
| "filter_Boolean (x # xs) = (case x of None \<Rightarrow> filter_Boolean xs | Some v \<Rightarrow> v # filter_Boolean xs)"

text \<open>
  \<open>.map(callback)\<close> with a callback that may throw: the first exception ends the
  traversal. The callback also receives the position of its element.
\<close>

datatype js_error = TypeError string

definition String_of_error :: "js_error \<Rightarrow> string" where
  "String_of_error e = (case e of TypeError msg \<Rightarrow> ''TypeError: '' @ msg)"

fun map_throwing :: "(nat \<Rightarrow> 'a \<Rightarrow> js_error + 'b) \<Rightarrow> nat \<Rightarrow> 'a list \<Rightarrow> js_error + 'b list" where
  "map_throwing f i [] = Inr []"
| "map_throwing f i (x # xs) =
     (case f i x of
        Inl e \<Rightarrow> Inl e
      | Inr y \<Rightarrow> (case map_throwing f (Suc i) xs of Inl e \<Rightarrow> Inl e | Inr ys \<Rightarrow> Inr (y # ys)))"

text \<open>\<open>Array.prototype.indexOf\<close>: the first position of the value, \<open>-1\<close> when absent.\<close>

fun indexOf :: "'a list \<Rightarrow> 'a \<Rightarrow> int" where
  "indexOf [] v = - 1"
| "indexOf (x # xs) v = (if x = v then 0 else let i = indexOf xs v in if i < 0 then - 1 else i + 1)"

section \<open>The upstream's data\<close>

text \<open>
  The parts of the upstream's JSON that the handlers read. Counts are \<open>nat\<close>, instants
  (milliseconds since the epoch) are \<open>int\<close>, since the code subtracts them.
\<close>

record participant =
  puuid :: string
  participantId :: nat
  riotIdGameName :: "string option"
  summonerName :: string
  championName :: string
  champLevel :: nat
  championTransform :: nat
  teamId :: nat
  teamPosition :: string
  individualPosition :: string
  lane :: string
  role :: string
  win :: bool
  kills :: nat
  deaths :: nat
  assists :: nat
  totalDamageDealtToChampions :: nat
  physicalDamageDealtToChampions :: nat
  magicDamageDealtToChampions :: nat
  trueDamageDealtToChampions :: nat
  goldEarned :: nat
  goldSpent :: nat
  visionScore :: nat
  wardsPlaced :: nat
  wardsKilled :: nat
  totalMinionsKilled :: nat
  neutralMinionsKilled :: nat
  item0 :: nat
  item1 :: nat
  item2 :: nat
  item3 :: nat
  item4 :: nat
  item5 :: nat
  item6 :: nat
  summoner1Id :: nat
  summoner2Id :: nat

record objective =
  first :: bool
  obj_kills :: nat

record objectives =
  baron :: objective
  dragon :: objective
  horde :: objective
  inhibitor :: objective
  riftHerald :: objective
  tower :: objective

record team =
  team_teamId :: nat
  team_win :: bool
  team_objectives :: objectives

record info =
  gameCreation :: int
  gameDuration :: nat
  gameMode :: string
  gameType :: string
  queueId :: nat
  participants :: "participant list"
  teams :: "team list"

record metadata =
  matchId :: string

record match =
  metadata :: metadata
  info :: info

record event =
  event_type :: string
  event_timestamp :: int
  realTimestamp :: "int option"
  event_participantId :: "nat option"
  killerId :: "nat option"
  victimId :: "nat option"
  assistingParticipantIds :: "nat list option"

record frame =
  frame_timestamp :: int
  events :: "event list"

record timeline =
  frames :: "frame list"

record ChampionMastery =
  championId :: nat
  championLevel :: nat
  championPoints :: nat
  championPointsSinceLastLevel :: nat
  chestGranted :: bool

record RankedEntry =
  queueType :: string
  tier :: string
  rank :: string
  leaguePoints :: nat
  ranked_wins :: nat
  ranked_losses :: nat

record account =
  account_puuid :: string

record summoner =
  summoner_id :: string

section \<open>Upstream calls\<close>

text \<open>
  A response of the upstream provider, as the handlers read it: the HTTP status, the
  raw text of the body (read on the error paths) and the parsed body (read on the
  success paths). Bodies are typed here; a body that does not have the shape the
  handler reads is outside this development.
\<close>

record 'a response =
  status :: nat
  text_body :: string
  json :: 'a

definition ok :: "('a, 'b) response_scheme \<Rightarrow> bool" where
  "ok r = (200 \<le> status r \<and> status r \<le> 299)"

text \<open>
  What one handler invocation does to the outside world: the number of requests it
  has sent upstream, and the delays (in milliseconds) it has slept, oldest first.
\<close>

record net =
  calls :: nat
  waits :: "nat list"

definition net0 :: net where
  "net0 = \<lparr>calls = 0, waits = []\<rparr>"

subsection \<open>fetchWithRetry (lol-player-stats/route.ts)\<close>

text \<open>
  \<open>fetch\<close> is the request being sent: \<open>fetch n\<close> is the upstream's answer when this
  request is the \<open>n\<close>-th one (counted from 0) of the invocation. The loop variable
  \<open>attempt\<close> runs from 1 to \<open>maxRetries\<close>; the statement after the loop sends the
  request once more.
\<close>

function fetchWithRetry_loop ::
  "(nat \<Rightarrow> 'a response) \<Rightarrow> nat \<Rightarrow> nat \<Rightarrow> net \<Rightarrow> 'a response \<times> net" where
  "fetchWithRetry_loop fetch maxRetries attempt s =
     (if attempt \<le> maxRetries then
        (let response = fetch (calls s);
             s1 = s\<lparr>calls := calls s + 1\<rparr>
         in if status response = 429
            then fetchWithRetry_loop fetch maxRetries (attempt + 1)
                   (s1\<lparr>waits := waits s1 @ [attempt * 2000]\<rparr>)
            else (response, s1))
      else (fetch (calls s), s\<lparr>calls := calls s + 1\<rparr>))"
  by pat_completeness auto
termination
  by (relation "measure (\<lambda>(fetch, maxRetries, attempt, s). maxRetries + 1 - attempt)") auto

declare fetchWithRetry_loop.simps [simp del]

definition fetchWithRetry :: "(nat \<Rightarrow> 'a response) \<Rightarrow> net \<Rightarrow> 'a response \<times> net" where
  "fetchWithRetry fetch s = fetchWithRetry_loop fetch 3 1 s"

subsection \<open>The provider\<close>

text \<open>
  The endpoints the handlers call. The first argument of each is the number of requests
  the invocation has sent before this one, so the provider may answer the same request
  differently over time. A request always gets a response; one that gets none (the
  \<open>fetch\<close> promise rejects) is outside this development.
\<close>

record upstream =
  account_by_riot_id :: "nat \<Rightarrow> string \<Rightarrow> string \<Rightarrow> account response"
  summoner_by_puuid :: "nat \<Rightarrow> string \<Rightarrow> summoner response"
  match_ids_by_puuid :: "nat \<Rightarrow> string \<Rightarrow> nat option \<Rightarrow> nat \<Rightarrow> string list response"
  match_by_id :: "nat \<Rightarrow> string \<Rightarrow> match response"
  timeline_by_id :: "nat \<Rightarrow> string \<Rightarrow> timeline response"
  mastery_top_by_puuid :: "nat \<Rightarrow> string \<Rightarrow> nat \<Rightarrow> ChampionMastery list response"
  league_entries_by_summoner :: "nat \<Rightarrow> string \<Rightarrow> RankedEntry list response"

text \<open>What a handler returns: \<open>NextResponse.json(body, {status})\<close>.\<close>

datatype 'a reply = Error_reply string "string option" | Data_reply 'a

record 'a next_response =
  code :: nat
  reply :: "'a reply"

record riot_id_request =
  gameName :: "string option"
  tagLine :: "string option"

text \<open>\<open>!x\<close> for a string that may be missing.\<close>

definition falsy :: "string option \<Rightarrow> bool" where
  "falsy x = (case x of None \<Rightarrow> True | Some str \<Rightarrow> str = [])"

section \<open>lol-history/route.ts\<close>

definition formatGameDuration :: "nat \<Rightarrow> string" where
  "formatGameDuration seconds =
     (let minutes = seconds div 60;
          remainingSeconds = seconds mod 60
      in string_of_nat minutes @ '':'' @ padStart 2 CHR ''0'' (string_of_nat remainingSeconds))"

definition getTimeAgo :: "int \<Rightarrow> int \<Rightarrow> string" where
  \<comment> \<open>\<open>now\<close> is what \<open>Date.now()\<close> returns\<close>
  "getTimeAgo now timestamp =
     (let diffMs = now - timestamp;
          diffMinutes = diffMs div (1000 * 60);
          diffHours = diffMs div (1000 * 60 * 60);
          diffDays = diffMs div (1000 * 60 * 60 * 24)
      in if 0 < diffDays
         then string_of_int diffDays @ '' day'' @ (if diffDays = 1 then [] else ''s'') @ '' ago''
         else if 0 < diffHours
         then string_of_int diffHours @ '' hour'' @ (if diffHours = 1 then [] else ''s'') @ '' ago''
         else string_of_int diffMinutes @ '' minute'' @ (if diffMinutes = 1 then [] else ''s'')
                @ '' ago'')"

definition queueMap :: "(nat \<times> string) list" where
  "queueMap =
     [(400, ''Normal Draft''), (420, ''Ranked Solo/Duo''), (430, ''Normal Blind''),
      (440, ''Ranked Flex''), (450, ''ARAM''), (700, ''Clash''), (900, ''URF''),
      (1020, ''One for All''), (1300, ''Nexus Blitz''), (1400, ''Ultimate Spellbook''),
      (1700, ''Arena''), (1900, ''URF''), (2000, ''Tutorial 1''), (2010, ''Tutorial 2''),
      (2020, ''Tutorial 3'')]"

definition getGameModeName :: "nat \<Rightarrow> string \<Rightarrow> string" where
  "getGameModeName qid mode =
     (case map_of queueMap qid of None \<Rightarrow> mode | Some name \<Rightarrow> if name = [] then mode else name)"

definition getRole :: "participant \<Rightarrow> string" where
  "getRole p =
     (if teamPosition p = ''TOP'' then ''top''
      else if teamPosition p = ''JUNGLE'' then ''jungle''
      else if teamPosition p = ''MIDDLE'' then ''mid''
      else if teamPosition p = ''BOTTOM'' then ''adc''
      else if teamPosition p = ''UTILITY'' then ''support''
      else if lane p = ''TOP'' then ''top''
      else if lane p = ''JUNGLE'' then ''jungle''
      else if lane p = ''MIDDLE'' then ''mid''
      else if lane p = ''BOTTOM'' \<and> role p = ''CARRY'' then ''adc''
      else if lane p = ''BOTTOM'' \<and> role p = ''SUPPORT'' then ''support''
      else if lane p = ''UTILITY'' then ''support''
      else ''unknown'')"

text \<open>An element of \<open>allPlayers\<close>.\<close>

record player =
  player_summonerName :: string
  player_championName :: string
  player_teamId :: nat
  player_kills :: nat
  player_deaths :: nat
  player_assists :: nat
  player_role :: string
  isCurrentPlayer :: bool
  player_puuid :: string

definition allPlayers_entry :: "string \<Rightarrow> participant \<Rightarrow> player" where
  "allPlayers_entry pu p =
     \<lparr>player_summonerName =
        (case riotIdGameName p of None \<Rightarrow> summonerName p
         | Some n \<Rightarrow> if n = [] then summonerName p else n),
      player_championName = championName p,
      player_teamId = teamId p,
      player_kills = kills p,
      player_deaths = deaths p,
      player_assists = assists p,
      player_role = getRole p,
      isCurrentPlayer = (puuid p = pu),
      player_puuid = puuid p\<rparr>"

definition roleOrder :: "string list" where
  "roleOrder = [''top'', ''jungle'', ''mid'', ''adc'', ''support'']"

definition sortByRole :: "player \<Rightarrow> player \<Rightarrow> number" where
  "sortByRole a b =
     js_sub (Fin (of_int (indexOf roleOrder (player_role a))))
            (Fin (of_int (indexOf roleOrder (player_role b))))"

text \<open>An element of the \<open>matches\<close> array of the response.\<close>

record match_summary =
  summary_win :: bool
  summary_champion :: string
  blueTeam :: "player list"
  redTeam :: "player list"
  summary_gameMode :: string
  summary_gameDuration :: string
  gameDurationSeconds :: nat
  timeAgo :: string
  isRemake :: bool
  summary_matchId :: string

text \<open>
  The callback of \<open>.map\<close> in step 4, for the player \<open>pu\<close>. When the player is not
  among the participants, \<open>find\<close> yields \<open>undefined\<close>, and reading \<open>participant.win\<close>
  for the object to return throws a \<open>TypeError\<close>, with the message Node gives it.
\<close>

definition match_entry :: "string \<Rightarrow> int \<Rightarrow> match \<Rightarrow> js_error + match_summary" where
  "match_entry pu now m =
     (let participant = find (\<lambda>p. puuid p = pu) (participants (info m));
          allPlayers = map (allPlayers_entry pu) (participants (info m));
          blueTeam = filter (\<lambda>p. player_teamId p = 100) allPlayers;
          redTeam = filter (\<lambda>p. player_teamId p = 200) allPlayers;
          sortedBlueTeam = Array_sort sortByRole blueTeam;
          sortedRedTeam = Array_sort sortByRole redTeam;
          isRemake = (gameDuration (info m) < 180
                      \<or> gameMode (info m) = ''PRACTICETOOL''
                      \<or> gameType (info m) = ''CUSTOM_GAME''
                      \<or> gameMode (info m) = ''TUTORIAL'');
          gameModeName = getGameModeName (queueId (info m)) (gameMode (info m))
      in case participant of
           None \<Rightarrow> Inl (TypeError ''Cannot read properties of undefined (reading 'win')'')
         | Some p \<Rightarrow>
             Inr \<lparr>summary_win = win p,
                  summary_champion = championName p,
                  blueTeam = sortedBlueTeam,
                  redTeam = sortedRedTeam,
                  summary_gameMode = gameModeName,
                  summary_gameDuration = formatGameDuration (gameDuration (info m)),
                  gameDurationSeconds = gameDuration (info m),
                  timeAgo = getTimeAgo now (gameCreation (info m)),
                  isRemake = isRemake,
                  summary_matchId = matchId (metadata m)\<rparr>)"

text \<open>
  Step 3: \<open>Promise.all(matchIds.map(async (matchId) => ...))\<close>. Each callback runs up to
  its \<open>await fetch\<close> when \<open>map\<close> calls it, so the requests leave in the order of
  \<open>matchIds\<close>, and the array of results has that order too.
\<close>

fun fetch_matches :: "upstream \<Rightarrow> nat \<Rightarrow> string list \<Rightarrow> match option list" where
  "fetch_matches up n [] = []"
| "fetch_matches up n (mid # mids) =
     (let matchRes = match_by_id up n mid
      in (if \<not> ok matchRes then None else Some (json matchRes)) # fetch_matches up (Suc n) mids)"

text \<open>
  The handler. \<open>clock k\<close> is what the \<open>k\<close>-th reading of \<open>Date.now()\<close> returns; the
  callback of step 4 reads it once for each match it returns an object for.
\<close>

definition history_POST ::
  "upstream \<Rightarrow> (nat \<Rightarrow> int) \<Rightarrow> riot_id_request \<Rightarrow> net
     \<Rightarrow> match_summary list next_response \<times> net" where
  "history_POST up clock req s =
     (if falsy (gameName req) \<or> falsy (tagLine req)
      then (\<lparr>code = 400, reply = Error_reply ''Missing gameName or tagLine'' None\<rparr>, s)
      else
        let accountRes = account_by_riot_id up (calls s) (the (gameName req)) (the (tagLine req));
            s = s\<lparr>calls := calls s + 1\<rparr>
        in if \<not> ok accountRes
           then (\<lparr>code = 404, reply = Error_reply ''Account not found'' None\<rparr>, s)
           else
             let pu = account_puuid (json accountRes);
                 matchIdsRes = match_ids_by_puuid up (calls s) pu None 20;
                 s = s\<lparr>calls := calls s + 1\<rparr>
             in if \<not> ok matchIdsRes
                then (\<lparr>code = 500, reply = Error_reply ''Could not fetch match IDs'' None\<rparr>, s)
                else
                  let matchIds = json matchIdsRes;
                      matchDetails = fetch_matches up (calls s) matchIds;
                      s = s\<lparr>calls := calls s + length matchIds\<rparr>
                  in case map_throwing (\<lambda>k. match_entry pu (clock k)) 0
                            (filter_Boolean matchDetails) of
                       Inl err \<Rightarrow>
                         (\<lparr>code = 500,
                           reply = Error_reply ''Internal server error''
                                     (Some (String_of_error err))\<rparr>, s)
                     | Inr matches \<Rightarrow> (\<lparr>code = 200, reply = Data_reply matches\<rparr>, s))"

section \<open>lol-match-details/route.ts\<close>

record playerStats =
  stats_kills :: nat
  stats_deaths :: nat
  stats_assists :: nat
  kda :: string
  stats_totalDamageDealtToChampions :: nat
  stats_physicalDamageDealtToChampions :: nat
  stats_magicDamageDealtToChampions :: nat
  stats_trueDamageDealtToChampions :: nat
  stats_goldEarned :: nat
  stats_goldSpent :: nat
  stats_visionScore :: nat
  stats_wardsPlaced :: nat
  stats_wardsKilled :: nat
  stats_totalMinionsKilled :: nat
  stats_neutralMinionsKilled :: nat
  csPerMinute :: string
  items :: "nat list"
  stats_summoner1Id :: nat
  stats_summoner2Id :: nat
  stats_championName :: string
  stats_championLevel :: nat
  stats_championTransform :: nat
  stats_teamPosition :: string
  stats_individualPosition :: string
  stats_win :: bool
  stats_gameDuration :: nat
  stats_gameMode :: string
  stats_queueId :: nat

definition kda_of :: "nat \<Rightarrow> nat \<Rightarrow> nat \<Rightarrow> string" where
  \<comment> \<open>the \<open>kda\<close> property, from \<open>currentPlayer.kills\<close>, \<open>.assists\<close> and \<open>.deaths\<close>\<close>
  "kda_of k a d =
     (if 0 < k + a then toFixed 2 (js_div (Num (k + a)) (Num (max d 1))) else ''0.00'')"

definition playerStats_of :: "match \<Rightarrow> participant \<Rightarrow> playerStats" where
  "playerStats_of matchData currentPlayer =
     \<lparr>stats_kills = kills currentPlayer,
      stats_deaths = deaths currentPlayer,
      stats_assists = assists currentPlayer,
      kda = kda_of (kills currentPlayer) (assists currentPlayer) (deaths currentPlayer),
      stats_totalDamageDealtToChampions = totalDamageDealtToChampions currentPlayer,
      stats_physicalDamageDealtToChampions = physicalDamageDealtToChampions currentPlayer,
      stats_magicDamageDealtToChampions = magicDamageDealtToChampions currentPlayer,
      stats_trueDamageDealtToChampions = trueDamageDealtToChampions currentPlayer,
      stats_goldEarned = goldEarned currentPlayer,
      stats_goldSpent = goldSpent currentPlayer,
      stats_visionScore = visionScore currentPlayer,
      stats_wardsPlaced = wardsPlaced currentPlayer,
      stats_wardsKilled = wardsKilled currentPlayer,
      stats_totalMinionsKilled = totalMinionsKilled currentPlayer,
      stats_neutralMinionsKilled = neutralMinionsKilled currentPlayer,
      csPerMinute =
        toFixed 1
          (js_div (Num (totalMinionsKilled currentPlayer + neutralMinionsKilled currentPlayer))
                  (js_div (Num (gameDuration (info matchData))) (Num 60))),
      items =
        filter (\<lambda>item. item \<noteq> 0)
          [item0 currentPlayer, item1 currentPlayer, item2 currentPlayer, item3 currentPlayer,
           item4 currentPlayer, item5 currentPlayer, item6 currentPlayer],
      stats_summoner1Id = summoner1Id currentPlayer,
      stats_summoner2Id = summoner2Id currentPlayer,
      stats_championName = championName currentPlayer,
      stats_championLevel = champLevel currentPlayer,
      stats_championTransform = championTransform currentPlayer,
      stats_teamPosition = teamPosition currentPlayer,
      stats_individualPosition = individualPosition currentPlayer,
      stats_win = win currentPlayer,
      stats_gameDuration = gameDuration (info matchData),
      stats_gameMode = gameMode (info matchData),
      stats_queueId = queueId (info matchData)\<rparr>"

text \<open>
  Step 5. An event of the player's timeline is the upstream's event with \<open>timestamp\<close>
  overwritten by the frame's and \<open>realTimestamp\<close> defaulted to it.
\<close>

definition involves :: "nat \<Rightarrow> event \<Rightarrow> bool" where
  "involves playerId ev =
     (event_participantId ev = Some playerId
      \<or> killerId ev = Some playerId
      \<or> victimId ev = Some playerId
      \<or> (case assistingParticipantIds ev of None \<Rightarrow> False | Some ids \<Rightarrow> playerId \<in> set ids))"

definition timeline_event :: "frame \<Rightarrow> event \<Rightarrow> event" where
  "timeline_event fr ev =
     ev\<lparr>event_timestamp := frame_timestamp fr,
        realTimestamp :=
          Some (case realTimestamp ev of
                  None \<Rightarrow> frame_timestamp fr
                | Some t \<Rightarrow> if t = 0 then frame_timestamp fr else t)\<rparr>"

definition playerTimeline_of :: "timeline option \<Rightarrow> participant \<Rightarrow> event list" where
  "playerTimeline_of timelineData currentPlayer =
     (case timelineData of
        None \<Rightarrow> []
      | Some tdata \<Rightarrow>
          let playerId = participantId currentPlayer
          in concat (map (\<lambda>fr. map (timeline_event fr) (filter (involves playerId) (events fr)))
                         (frames tdata)))"

text \<open>Step 6.\<close>

record objectives_summary =
  summary_baron :: objective
  summary_dragon :: objective
  summary_inhibitor :: objective
  summary_riftHerald :: objective
  summary_tower :: objective

record team_summary =
  summary_teamId :: nat
  summary_team_win :: bool
  summary_objectives :: objectives_summary

definition teamObjectives_of :: "match \<Rightarrow> team_summary list" where
  "teamObjectives_of matchData =
     map (\<lambda>t. \<lparr>summary_teamId = team_teamId t,
               summary_team_win = team_win t,
               summary_objectives =
                 \<lparr>summary_baron = baron (team_objectives t),
                  summary_dragon = dragon (team_objectives t),
                  summary_inhibitor = inhibitor (team_objectives t),
                  summary_riftHerald = riftHerald (team_objectives t),
                  summary_tower = tower (team_objectives t)\<rparr>\<rparr>)
         (teams (info matchData))"

record matchInfo =
  matchInfo_gameCreation :: int
  matchInfo_gameDuration :: nat
  matchInfo_gameMode :: string
  matchInfo_queueId :: nat

definition matchInfo_of :: "match \<Rightarrow> matchInfo" where
  "matchInfo_of matchData =
     \<lparr>matchInfo_gameCreation = gameCreation (info matchData),
      matchInfo_gameDuration = gameDuration (info matchData),
      matchInfo_gameMode = gameMode (info matchData),
      matchInfo_queueId = queueId (info matchData)\<rparr>"

record match_details =
  playerStats :: playerStats
  playerTimeline :: "event list"
  teamObjectives :: "team_summary list"
  matchInfo :: matchInfo

record details_request =
  request_matchId :: "string option"
  request_puuid :: "string option"

definition details_POST ::
  "upstream \<Rightarrow> details_request \<Rightarrow> net \<Rightarrow> match_details next_response \<times> net" where
  "details_POST up req s =
     (if falsy (request_matchId req) \<or> falsy (request_puuid req)
      then (\<lparr>code = 400, reply = Error_reply ''Missing matchId or puuid'' None\<rparr>, s)
      else
        let mid = the (request_matchId req);
            pu = the (request_puuid req);
            matchRes = match_by_id up (calls s) mid;
            s = s\<lparr>calls := calls s + 1\<rparr>
        in if \<not> ok matchRes
           then (\<lparr>code = 404, reply = Error_reply ''Match not found'' None\<rparr>, s)
           else
             let matchData = json matchRes;
                 timelineRes = timeline_by_id up (calls s) mid;
                 s = s\<lparr>calls := calls s + 1\<rparr>;
                 timelineData = (if ok timelineRes then Some (json timelineRes) else None)
             in case find (\<lambda>p. puuid p = pu) (participants (info matchData)) of
                  None \<Rightarrow>
                    (\<lparr>code = 404, reply = Error_reply ''Player not found in match'' None\<rparr>, s)
                | Some currentPlayer \<Rightarrow>
                    (\<lparr>code = 200,
                      reply = Data_reply
                        \<lparr>playerStats = playerStats_of matchData currentPlayer,
                         playerTimeline = playerTimeline_of timelineData currentPlayer,
                         teamObjectives = teamObjectives_of matchData,
                         matchInfo = matchInfo_of matchData\<rparr>\<rparr>, s))"

section \<open>lol-player-stats/route.ts\<close>

subsection \<open>Winrates by champion\<close>

text \<open>
  \<open>championStats\<close> is an object used as a dictionary from champion names to counters.
  It is modelled as the list of its own properties in the order of their creation.
  Champion names that name a member of \<open>Object.prototype\<close> (such as \<open>constructor\<close>)
  are outside this development.
\<close>

record champion_counters =
  counted_wins :: nat
  counted_losses :: nat
  totalDamage :: nat
  totalGold :: nat

fun obj_update :: "string \<Rightarrow> ('v \<Rightarrow> 'v) \<Rightarrow> (string \<times> 'v) list \<Rightarrow> (string \<times> 'v) list" where
  "obj_update k f [] = []"
| "obj_update k f ((k', v) # kvs) =
     (if k' = k then (k', f v) # kvs else (k', v) # obj_update k f kvs)"

text \<open>The body of the \<open>forEach\<close> over the fetched matches, for the player \<open>pu\<close>.\<close>

definition count_match ::
  "string \<Rightarrow> (string \<times> champion_counters) list \<Rightarrow> match \<Rightarrow> (string \<times> champion_counters) list" where
  "count_match pu championStats m =
     (case find (\<lambda>p. puuid p = pu) (participants (info m)) of
        None \<Rightarrow> championStats
      | Some participant \<Rightarrow>
          let name = championName participant;
              championStats =
                (if map_of championStats name = None
                 then championStats
                        @ [(name, \<lparr>counted_wins = 0, counted_losses = 0,
                                    totalDamage = 0, totalGold = 0\<rparr>)]
                 else championStats);
              championStats =
                (if win participant
                 then obj_update name (\<lambda>c. c\<lparr>counted_wins := counted_wins c + 1\<rparr>) championStats
                 else obj_update name (\<lambda>c. c\<lparr>counted_losses := counted_losses c + 1\<rparr>)
                        championStats);
              championStats =
                obj_update name
                  (\<lambda>c. c\<lparr>totalDamage := totalDamage c + totalDamageDealtToChampions participant\<rparr>)
                  championStats
          in obj_update name (\<lambda>c. c\<lparr>totalGold := totalGold c + goldEarned participant\<rparr>)
               championStats)"

text \<open>
  \<open>Object.entries\<close> lists the properties whose names are array indices first, by
  ascending index, and then the others in the order of their creation.
\<close>

definition is_array_index :: "string \<Rightarrow> bool" where
  "is_array_index k =
     (k \<noteq> [] \<and> list_all is_digit k \<and> string_of_nat (nat_of_digits k) = k
      \<and> nat_of_digits k < 2 ^ 32 - 1)"

definition Object_entries :: "(string \<times> 'v) list \<Rightarrow> (string \<times> 'v) list" where
  "Object_entries kvs =
     sort_key (\<lambda>kv. nat_of_digits (fst kv)) (filter (\<lambda>kv. is_array_index (fst kv)) kvs)
     @ filter (\<lambda>kv. \<not> is_array_index (fst kv)) kvs"

record ChampionWinrate =
  champion :: string
  wins :: nat
  losses :: nat
  winrate :: string
  totalGames :: nat
  avgDamage :: number
  avgGold :: number

definition winrate_row :: "string \<times> champion_counters \<Rightarrow> ChampionWinrate" where
  "winrate_row entry =
     (case entry of (name, stats) \<Rightarrow>
        \<lparr>champion = name,
         wins = counted_wins stats,
         losses = counted_losses stats,
         winrate =
           (if 0 < counted_wins stats + counted_losses stats
            then toFixed 1
                   (js_mul (js_div (Num (counted_wins stats))
                                   (Num (counted_wins stats + counted_losses stats)))
                           (Num 100))
            else ''0.0''),
         totalGames = counted_wins stats + counted_losses stats,
         avgDamage =
           Math_round (js_div (Num (totalDamage stats))
                              (Num (counted_wins stats + counted_losses stats))),
         avgGold =
           Math_round (js_div (Num (totalGold stats))
                              (Num (counted_wins stats + counted_losses stats)))\<rparr>)"

definition by_winrate_desc :: "ChampionWinrate \<Rightarrow> ChampionWinrate \<Rightarrow> number" where
  \<comment> \<open>\<open>(a, b) => Number(b.winrate) - Number(a.winrate)\<close>\<close>
  "by_winrate_desc a b = js_sub (Number_of_string (winrate b)) (Number_of_string (winrate a))"

definition champion_winrates :: "string \<Rightarrow> match option list \<Rightarrow> ChampionWinrate list" where
  "champion_winrates pu matchDetails =
     (let championStats = foldl (count_match pu) [] (filter_Boolean matchDetails)
      in Array_sort by_winrate_desc (map winrate_row (Object_entries championStats)))"

text \<open>
  What the aggregate is meant to be, in the words of its description: \<open>played\<close> are the
  player's own records in the fetched matches that list the player, \<open>games_on\<close> those of
  them on one champion, and \<open>tally\<close> the counters of that group.
\<close>

definition played :: "string \<Rightarrow> match option list \<Rightarrow> participant list" where
  "played pu matchDetails =
     List.map_filter (\<lambda>m. find (\<lambda>p. puuid p = pu) (participants (info m)))
       (filter_Boolean matchDetails)"

definition games_on :: "string \<Rightarrow> participant list \<Rightarrow> participant list" where
  "games_on name ps = filter (\<lambda>p. championName p = name) ps"

definition tally :: "string \<Rightarrow> participant list \<Rightarrow> champion_counters" where
  "tally name ps =
     \<lparr>counted_wins = length (filter win (games_on name ps)),
      counted_losses = length (filter (\<lambda>p. \<not> win p) (games_on name ps)),
      totalDamage = sum_list (map totalDamageDealtToChampions (games_on name ps)),
      totalGold = sum_list (map goldEarned (games_on name ps))\<rparr>"

text \<open>What one more game on a champion adds to the counters of that champion.\<close>

definition counted :: "participant \<Rightarrow> champion_counters \<Rightarrow> champion_counters" where
  "counted p c =
     \<lparr>counted_wins = counted_wins c + (if win p then 1 else 0),
      counted_losses = counted_losses c + (if win p then 0 else 1),
      totalDamage = totalDamage c + totalDamageDealtToChampions p,
      totalGold = totalGold c + goldEarned p\<rparr>"

text \<open>The order of numbers; \<open>NaN\<close> is not comparable, and no infinity occurs among winrates.\<close>

fun num_le :: "number \<Rightarrow> number \<Rightarrow> bool" where
  "num_le (Fin x) (Fin y) = (x \<le> y)"
| "num_le _ _ = False"

subsection \<open>The handler\<close>

record player_stats_reply =
  mastery :: "ChampionMastery list"
  ranked :: "RankedEntry list"
  winrates :: "ChampionWinrate list"

text \<open>
  The batch of step 5: \<open>Promise.all\<close> over the first ten ids, each request sent through
  \<open>fetchWithRetry\<close>. Each callback runs up to its first \<open>await fetch\<close> when \<open>map\<close> calls
  it, so the first attempts leave in the order of the ids, all of them before any
  retry. A rate-limited request sleeps \<open>attempt * 2000\<close> ms and is sent again; with the
  provider answering in the order it is asked, the second attempts leave in the order
  of the ids too, then the third ones, and last the request after the loop. A pending
  request is paired with \<open>None\<close>, one that has its response with that response.
\<close>

fun retry_round ::
  "upstream \<Rightarrow> nat \<Rightarrow> (string \<times> match response option) list \<Rightarrow> net
     \<Rightarrow> (string \<times> match response option) list \<times> net" where
  "retry_round up attempt [] s = ([], s)"
| "retry_round up attempt ((mid, Some response) # pending) s =
     (let (rest, s) = retry_round up attempt pending s
      in ((mid, Some response) # rest, s))"
| "retry_round up attempt ((mid, None) # pending) s =
     (let response = match_by_id up (calls s) mid;
          s = s\<lparr>calls := calls s + 1\<rparr>
      in if status response = 429
         then (let s = s\<lparr>waits := waits s @ [attempt * 2000]\<rparr>;
                   (rest, s) = retry_round up attempt pending s
               in ((mid, None) # rest, s))
         else (let (rest, s) = retry_round up attempt pending s
               in ((mid, Some response) # rest, s)))"

text \<open>The statement after the loop: the request is sent once more, and that response returned.\<close>

fun last_round ::
  "upstream \<Rightarrow> (string \<times> match response option) list \<Rightarrow> net
     \<Rightarrow> (string \<times> match response) list \<times> net" where
  "last_round up [] s = ([], s)"
| "last_round up ((mid, Some response) # pending) s =
     (let (rest, s) = last_round up pending s
      in ((mid, response) # rest, s))"
| "last_round up ((mid, None) # pending) s =
     (let response = match_by_id up (calls s) mid;
          s = s\<lparr>calls := calls s + 1\<rparr>;
          (rest, s) = last_round up pending s
      in ((mid, response) # rest, s))"

definition fetch_matches_with_retry ::
  "upstream \<Rightarrow> string list \<Rightarrow> net \<Rightarrow> match option list \<times> net" where
  "fetch_matches_with_retry up mids s =
     (let (pending, s) = retry_round up 1 (map (\<lambda>mid. (mid, None)) mids) s;
          (pending, s) = retry_round up 2 pending s;
          (pending, s) = retry_round up 3 pending s;
          (settled, s) = last_round up pending s
      in (map (\<lambda>(mid, matchRes). if \<not> ok matchRes then None else Some (json matchRes)) settled,
          s))"

definition error_details :: "('a, 'b) response_scheme \<Rightarrow> string" where
  "error_details res = ''Status: '' @ string_of_nat (status res) @ '', Response: '' @ text_body res"

definition stats_POST ::
  "upstream \<Rightarrow> riot_id_request \<Rightarrow> net \<Rightarrow> player_stats_reply next_response \<times> net" where
  "stats_POST up req s =
     (if falsy (gameName req) \<or> falsy (tagLine req)
      then (\<lparr>code = 400, reply = Error_reply ''Missing gameName or tagLine'' None\<rparr>, s)
      else
        let (accountRes, s) =
              fetchWithRetry
                (\<lambda>n. account_by_riot_id up n (the (gameName req)) (the (tagLine req))) s
        in if \<not> ok accountRes
           then (if status accountRes = 429
                 then (\<lparr>code = 429,
                        reply = Error_reply
                          ''Rate limit exceeded. Please wait a moment and try again.''
                          (Some (error_details accountRes))\<rparr>, s)
                 else (\<lparr>code = 404,
                        reply = Error_reply ''Account not found''
                          (Some (error_details accountRes))\<rparr>, s))
           else
             let pu = account_puuid (json accountRes);
                 (summonerRes, s) = fetchWithRetry (\<lambda>n. summoner_by_puuid up n pu) s
             in if \<not> ok summonerRes
                then (\<lparr>code = 404, reply = Error_reply ''Summoner not found'' None\<rparr>, s)
                else
                  let summonerId = summoner_id (json summonerRes);
                      (masteryRes, s) = fetchWithRetry (\<lambda>n. mastery_top_by_puuid up n pu 10) s;
                      masteryData = (if ok masteryRes then json masteryRes else []);
                      (rankedRes, s) =
                        fetchWithRetry (\<lambda>n. league_entries_by_summoner up n summonerId) s;
                      rankedData = (if ok rankedRes then json rankedRes else []);
                      (matchIdsRes, s) =
                        fetchWithRetry (\<lambda>n. match_ids_by_puuid up n pu (Some 420) 50) s
                  in if ok matchIdsRes
                     then
                       let matchIds = json matchIdsRes;
                           (matchDetails, s) = fetch_matches_with_retry up (take 10 matchIds) s
                       in (\<lparr>code = 200,
                            reply = Data_reply
                              \<lparr>mastery = masteryData, ranked = rankedData,
                               winrates = champion_winrates pu matchDetails\<rparr>\<rparr>, s)
                     else (\<lparr>code = 200,
                            reply = Data_reply
                              \<lparr>mastery = masteryData, ranked = rankedData,
                               winrates = []\<rparr>\<rparr>, s))"

section \<open>Example data\<close>

text \<open>Concrete upstream data on which the properties below are exercised.\<close>

definition example_participant ::
  "string \<Rightarrow> string \<Rightarrow> nat \<Rightarrow> string \<Rightarrow> bool \<Rightarrow> nat \<Rightarrow> nat \<Rightarrow> participant" where
  "example_participant pu champ side pos won dmg gold =
     \<lparr>puuid = pu, participantId = 1, riotIdGameName = None, summonerName = ''summoner'',
      championName = champ, champLevel = 10, championTransform = 0, teamId = side,
      teamPosition = pos, individualPosition = pos, lane = ''NONE'', role = ''NONE'',
      win = won, kills = 5, deaths = 0, assists = 7,
      totalDamageDealtToChampions = dmg, physicalDamageDealtToChampions = 0,
      magicDamageDealtToChampions = dmg, trueDamageDealtToChampions = 0,
      goldEarned = gold, goldSpent = 0, visionScore = 0, wardsPlaced = 0, wardsKilled = 0,
      totalMinionsKilled = 150, neutralMinionsKilled = 0,
      item0 = 3089, item1 = 0, item2 = 0, item3 = 0, item4 = 0, item5 = 0, item6 = 3340,
      summoner1Id = 4, summoner2Id = 14\<rparr>"

definition example_match :: "string \<Rightarrow> participant list \<Rightarrow> match" where
  "example_match mid ps =
     \<lparr>metadata = \<lparr>matchId = mid\<rparr>,
      info = \<lparr>gameCreation = 0, gameDuration = 1800, gameMode = ''CLASSIC'',
              gameType = ''MATCHED_GAME'', queueId = 420, participants = ps, teams = []\<rparr>\<rparr>"

definition respond :: "nat \<Rightarrow> 'a \<Rightarrow> 'a response" where
  "respond st body = \<lparr>status = st, text_body = [], json = body\<rparr>"

text \<open>
  A provider that knows the player \<open>P1\<close> with the matches \<open>M1\<close>, \<open>M2\<close>, \<open>M3\<close>, of which
  \<open>M2\<close> cannot be fetched, and has no timelines.
\<close>

definition example_upstream :: upstream where
  "example_upstream =
     \<lparr>account_by_riot_id = (\<lambda>n g t. respond 200 \<lparr>account_puuid = ''P1''\<rparr>),
      summoner_by_puuid = (\<lambda>n pu. respond 200 \<lparr>summoner_id = ''S1''\<rparr>),
      match_ids_by_puuid = (\<lambda>n pu q c. respond 200 [''M1'', ''M2'', ''M3'']),
      match_by_id =
        (\<lambda>n mid. if mid = ''M2'' then respond 404 (example_match mid [])
                 else respond 200
                        (example_match mid [example_participant ''P1'' ''Ahri'' 100 ''MIDDLE'' True 0 0])),
      timeline_by_id = (\<lambda>n mid. respond 404 \<lparr>frames = []\<rparr>),
      mastery_top_by_puuid = (\<lambda>n pu c. respond 200 []),
      league_entries_by_summoner = (\<lambda>n sid. respond 200 [])\<rparr>"

definition example_request :: riot_id_request where
  "example_request = \<lparr>gameName = Some ''pikachu'', tagLine = Some ''001''\<rparr>"

text \<open>Two ranked games of \<open>P1\<close> on Ahri: a win with 20000 damage and 10000 gold, and a
  loss with 10000 damage and 8000 gold.\<close>

definition example_sample :: "match option list" where
  "example_sample =
     [Some (example_match ''M1'' [example_participant ''P1'' ''Ahri'' 100 ''MIDDLE'' True 20000 10000]),
      Some (example_match ''M2'' [example_participant ''P1'' ''Ahri'' 100 ''MIDDLE'' False 10000 8000])]"

text \<open>A match abandoned after two minutes, which the upstream still records as won.\<close>

definition example_remake :: match where
  "example_remake =
     \<lparr>metadata = \<lparr>matchId = ''M9''\<rparr>,
      info = \<lparr>gameCreation = 0, gameDuration = 120, gameMode = ''CLASSIC'',
              gameType = ''MATCHED_GAME'', queueId = 420,
              participants = [example_participant ''P1'' ''Ahri'' 100 ''MIDDLE'' True 0 0],
              teams = []\<rparr>\<rparr>"

text \<open>
  A match whose blue side is listed as support, a participant without any position
  (\<open>teamPosition\<close> empty, \<open>lane\<close> and \<open>role\<close> \<open>NONE\<close>), and top.
\<close>

definition example_unplaced :: match where
  "example_unplaced =
     example_match ''M7''
       [example_participant ''P1'' ''Thresh'' 100 ''UTILITY'' True 0 0,
        example_participant ''P2'' ''Teemo'' 100 [] True 0 0,
        example_participant ''P3'' ''Garen'' 100 ''TOP'' True 0 0]"

text \<open>
  A provider whose account lookup is rate-limited on the first request only, and one
  whose summoner lookup is rate-limited on every request.
\<close>

definition rate_limited_once :: upstream where
  "rate_limited_once =
     example_upstream\<lparr>account_by_riot_id :=
       (\<lambda>n g t. if n = 0 then respond 429 \<lparr>account_puuid = []\<rparr>
                else respond 200 \<lparr>account_puuid = ''P1''\<rparr>)\<rparr>"

definition summoner_rate_limited :: upstream where
  "summoner_rate_limited =
     example_upstream\<lparr>summoner_by_puuid := (\<lambda>n pu. respond 429 \<lparr>summoner_id = []\<rparr>)\<rparr>"

text \<open>A provider whose matches all lack the player \<open>P1\<close>.\<close>

definition strangers_upstream :: upstream where
  "strangers_upstream =
     example_upstream\<lparr>match_by_id :=
       (\<lambda>n mid. respond 200
                  (example_match mid [example_participant ''P2'' ''Teemo'' 100 ''TOP'' True 0 0]))\<rparr>"


text \<open>Two upstreams used below: one that rate-limits every request, and one that
  rate-limits the first three requests and then answers 200.\<close>

definition always_429 :: "nat \<Rightarrow> unit response" where
  "always_429 n = \<lparr>status = 429, text_body = ''rate limited'', json = ()\<rparr>"

definition recovers_at_4th :: "nat \<Rightarrow> unit response" where
  "recovers_at_4th n =
     (if n < 3 then \<lparr>status = 429, text_body = ''rate limited'', json = ()\<rparr>
      else \<lparr>status = 200, text_body = ''fine'', json = ()\<rparr>)"

section \<open>Properties\<close>

subsection \<open>Evaluating the numeric and string functions\<close>

lemma floor_rat_numeral_div [simp]:
  "\<lfloor>numeral a / numeral b :: rat\<rfloor> = numeral a div numeral b"
  using floor_divide_of_int_eq [of "numeral a" "numeral b", where ?'a = rat] by simp

lemma ceiling_rat_numeral_div [simp]:
  "\<lceil>numeral a / numeral b :: rat\<rceil> = - ((- numeral a) div numeral b)"
  using floor_divide_of_int_eq [of "- numeral a" "numeral b", where ?'a = rat]
  by (simp add: ceiling_def)

lemma bitlen_pos: "0 < n \<Longrightarrow> bitlen n = bitlen (n div 2) + 1"
  by (subst bitlen.simps) simp

lemma bitlen_nonpos: "n \<le> 0 \<Longrightarrow> bitlen n = 0"
  by (subst bitlen.simps) simp

lemma string_of_nat_digit: "n < 10 \<Longrightarrow> string_of_nat n = [digit_char n]"
  by (subst string_of_nat.simps) simp

lemma string_of_nat_more:
  "10 \<le> n \<Longrightarrow> string_of_nat n = string_of_nat (n div 10) @ [digit_char (n mod 10)]"
  by (subst string_of_nat.simps) simp

lemmas js_eval = Num_def fl_def binexp_def bitlen_pos bitlen_nonpos pow2_def round_half_even_def
  fixed_digits_def string_of_nat_digit string_of_nat_more digit_char_def Let_def

subsection \<open>Rounding to a double keeps the sign\<close>

lemma pow2_powi: "pow2 e = 2 powi e"
  by (simp add: pow2_def power_int_def field_simps)

lemma pow2_pos [simp]: "0 < pow2 e"
  by (simp add: pow2_powi)

lemma pow2_diff: "pow2 (a - b) = pow2 a / pow2 b"
  by (simp add: pow2_powi power_int_diff)

lemma bitlen_nonneg: "0 \<le> bitlen n"
proof (induction n rule: bitlen.induct)
  case (1 n)
  then show ?case by (subst bitlen.simps) simp
qed

lemma bitlen_lower: "0 < n \<Longrightarrow> 2 ^ nat (bitlen n - 1) \<le> n"
proof (induction n rule: bitlen.induct)
  case (1 n)
  show ?case
  proof (cases "0 < n div 2")
    case True
    then have ih: "2 ^ nat (bitlen (n div 2) - 1) \<le> n div 2"
      using 1 by simp
    have pos: "0 < bitlen (n div 2)"
      using True bitlen_nonneg [of "n div 2 div 2"] by (subst bitlen.simps) simp
    have eq: "bitlen n - 1 = bitlen (n div 2)"
      using 1(2) by (subst bitlen.simps) simp
    have "nat (bitlen (n div 2)) = Suc (nat (bitlen (n div 2) - 1))"
      using pos by simp
    then have "(2::int) ^ nat (bitlen n - 1) = 2 * 2 ^ nat (bitlen (n div 2) - 1)"
      using eq by simp
    also have "\<dots> \<le> 2 * (n div 2)" using ih by simp
    also have "\<dots> \<le> n" by simp
    finally show ?thesis .
  next
    case False
    then have "n = 1" using 1(2) by linarith
    then show ?thesis by (simp add: bitlen_pos bitlen_nonpos)
  qed
qed

lemma bitlen_upper: "0 \<le> n \<Longrightarrow> n < 2 ^ nat (bitlen n)"
proof (induction n rule: bitlen.induct)
  case (1 n)
  show ?case
  proof (cases "0 < n")
    case True
    then have ih: "n div 2 < 2 ^ nat (bitlen (n div 2))"
      using 1 by simp
    have "nat (bitlen n) = Suc (nat (bitlen (n div 2)))"
      using True bitlen_nonneg [of "n div 2"] by (subst bitlen.simps) simp
    then have "(2::int) ^ nat (bitlen n) = 2 * 2 ^ nat (bitlen (n div 2))"
      by simp
    moreover have "n < 2 * (n div 2 + 1)" by presburger
    ultimately show ?thesis using ih by linarith
  next
    case False
    then show ?thesis using 1(2) by (simp add: bitlen_nonpos)
  qed
qed

lemma binexp_lower:
  assumes "0 < a"
  shows "pow2 (binexp a) \<le> a"
proof (cases "1 \<le> a")
  case True
  then have n: "0 < \<lfloor>a\<rfloor>" by simp
  have "0 \<le> bitlen \<lfloor>a\<rfloor> - 1"
    using n bitlen_nonneg [of "\<lfloor>a\<rfloor> div 2"] by (subst bitlen.simps) simp
  then have "pow2 (binexp a) = of_int (2 ^ nat (bitlen \<lfloor>a\<rfloor> - 1))"
    using True by (simp add: binexp_def pow2_def)
  also have "\<dots> \<le> of_int \<lfloor>a\<rfloor>"
    using bitlen_lower [OF n] by (simp only: of_int_le_iff)
  also have "\<dots> \<le> a" by simp
  finally show ?thesis .
next
  case False
  define k where "k = \<lceil>1 / a\<rceil> - 1"
  have "1 < 1 / a" using False assms by simp
  then have k0: "0 \<le> k" unfolding k_def using assms by (simp add: le_ceiling_iff)
  have "1 / a \<le> of_int (k + 1)" unfolding k_def by (simp add: le_of_int_ceiling)
  also have "\<dots> \<le> of_int (2 ^ nat (bitlen k))"
    using bitlen_upper [OF k0] by (simp only: of_int_le_iff)
  finally have "1 / a \<le> 2 ^ nat (bitlen k)" by simp
  then have "1 / 2 ^ nat (bitlen k) \<le> a"
    using assms by (simp add: field_simps)
  moreover have "pow2 (binexp a) = 1 / 2 ^ nat (bitlen k)"
    using False bitlen_nonneg [of k] by (auto simp: binexp_def pow2_def k_def)
  ultimately show ?thesis by simp
qed

lemma round_half_even_ge:
  assumes "of_int n \<le> q"
  shows "n \<le> round_half_even q"
proof -
  have "n \<le> \<lfloor>q\<rfloor>" using assms by (simp add: le_floor_iff)
  moreover have "\<lfloor>q\<rfloor> \<le> round_half_even q"
    by (simp add: round_half_even_def Let_def)
  ultimately show ?thesis by linarith
qed

lemma fl_pos:
  assumes "0 < q"
  shows "0 < fl q"
proof -
  define e where "e = binexp q"
  have "pow2 e \<le> q" unfolding e_def using assms by (rule binexp_lower)
  then have "1 \<le> q / pow2 e" by (simp add: field_simps)
  then have "1 * 2 ^ 52 \<le> q / pow2 e * 2 ^ 52"
    by (intro mult_right_mono) simp_all
  moreover have "q / pow2 (e - 52) = q / pow2 e * 2 ^ 52"
    by (simp add: pow2_diff) (simp add: pow2_def)
  ultimately have "(2::rat) ^ 52 \<le> q / pow2 (e - 52)" by (simp only: mult_1)
  moreover have "(1::rat) \<le> 2 ^ 52" by simp
  ultimately have "of_int 1 \<le> q / pow2 (e - 52)" by (simp only: of_int_1)
  then have "1 \<le> round_half_even (q / pow2 (e - 52))" by (rule round_half_even_ge)
  then have "0 < of_int (round_half_even (q / pow2 (e - 52))) * pow2 (e - 52)"
    by (simp add: zero_less_mult_iff)
  then show ?thesis
    using assms by (simp add: fl_def Let_def e_def)
qed

lemma fl_minus: "fl (- q) = - fl q"
  by (simp add: fl_def Let_def)

lemma fl_pos_iff: "0 < fl q \<longleftrightarrow> 0 < q"
proof
  assume "0 < fl q"
  show "0 < q"
  proof (rule ccontr)
    assume "\<not> 0 < q"
    then consider "q = 0" | "0 < - q" by linarith
    then show False
    proof cases
      case 1
      then show ?thesis using \<open>0 < fl q\<close> by (simp add: fl_def)
    next
      case 2
      then have "0 < fl (- q)" by (rule fl_pos)
      then show ?thesis using \<open>0 < fl q\<close> by (simp add: fl_minus)
    qed
  qed
qed (rule fl_pos)

lemma fl_nonneg: "0 \<le> q \<Longrightarrow> 0 \<le> fl q"
  using fl_pos [of q] by (cases "q = 0") (simp_all add: fl_def)

lemma positive_js_sub [simp]: "positive (js_sub (Fin x) (Fin y)) \<longleftrightarrow> y < x"
  by (simp add: fl_pos_iff)

subsection \<open>Sorting, and the example provider\<close>

lemma Array_sort_Nil [simp]: "Array_sort cmp [] = []"
  by (simp add: Array_sort_def)

lemma Array_sort_Cons: "Array_sort cmp (x # xs) = insert_sorted cmp x (Array_sort cmp xs)"
  by (simp add: Array_sort_def)

lemma insert_sorted_eq_insort_key:
  assumes "\<And>y. y \<in> set ys \<Longrightarrow> positive (cmp x y) = (key y < key x)"
  shows "insert_sorted cmp x ys = insort_key key x ys"
  using assms by (induction ys) (auto simp: not_less)

lemma Array_sort_eq_sort_key:
  fixes key :: "'a \<Rightarrow> 'k::linorder"
  assumes "\<And>x y. x \<in> set xs \<Longrightarrow> y \<in> set xs \<Longrightarrow> positive (cmp x y) = (key y < key x)"
  shows "Array_sort cmp xs = sort_key key xs"
  using assms
proof (induction xs)
  case Nil
  then show ?case by simp
next
  case (Cons x xs)
  have "Array_sort cmp xs = sort_key key xs"
    using Cons by simp
  moreover have "insert_sorted cmp x (sort_key key xs) = insort_key key x (sort_key key xs)"
    using Cons.prems by (intro insert_sorted_eq_insort_key) simp
  ultimately show ?case by (simp add: Array_sort_Cons)
qed

lemma set_insert_sorted [simp]: "set (insert_sorted cmp x ys) = insert x (set ys)"
  by (induction ys) auto

lemma length_insert_sorted [simp]: "length (insert_sorted cmp x ys) = Suc (length ys)"
  by (induction ys) auto

lemma set_Array_sort [simp]: "set (Array_sort cmp xs) = set xs"
  by (induction xs) (simp_all add: Array_sort_Cons)

lemma length_Array_sort [simp]: "length (Array_sort cmp xs) = length xs"
  by (induction xs) (simp_all add: Array_sort_Cons)

lemma distinct_map_rearranged:
  assumes "set ys = set xs" and "length ys = length xs" and "distinct (map f xs)"
  shows "distinct (map f ys)"
proof -
  have "card (set (map f ys)) = card (set (map f xs))" using assms(1) by simp
  also have "\<dots> = length (map f xs)" using assms(3) by (rule distinct_card)
  also have "\<dots> = length (map f ys)" using assms(2) by simp
  finally show ?thesis by (rule card_distinct)
qed

lemma is_digit_digit_char: "d < 10 \<Longrightarrow> is_digit (digit_char d)"
proof -
  assume "d < 10"
  then have "d \<in> {0, 1, 2, 3, 4, 5, 6, 7, 8, 9}" by auto
  then show ?thesis by (auto simp: is_digit_def digit_char_def)
qed

lemma string_of_nat_digits: "list_all is_digit (string_of_nat n)"
proof (induction n rule: string_of_nat.induct)
  case (1 n)
  show ?case
  proof (cases "n < 10")
    case True
    then show ?thesis by (simp add: string_of_nat_digit is_digit_digit_char)
  next
    case False
    then show ?thesis using 1 by (simp add: string_of_nat_more is_digit_digit_char)
  qed
qed

lemma string_of_nat_nonempty: "string_of_nat n \<noteq> []"
  by (subst string_of_nat.simps) simp

lemma fixed_digits_shape:
  assumes "0 < f"
  shows "\<exists>a b. fixed_digits f x = a @ CHR ''.'' # b \<and> a \<noteq> [] \<and> list_all is_digit a
               \<and> list_all is_digit b \<and> length b = f"
proof -
  define m0 where "m0 = string_of_nat (nat \<lfloor>x * 10 ^ f + 1 / 2\<rfloor>)"
  define m where "m = (if length m0 \<le> f then replicate (f + 1 - length m0) CHR ''0'' @ m0 else m0)"
  have d0: "list_all is_digit m0" unfolding m0_def by (rule string_of_nat_digits)
  have "is_digit CHR ''0''" by (simp add: is_digit_def)
  then have d: "list_all is_digit m" using d0 by (simp add: m_def list_all_iff)
  have len: "f < length m" by (simp add: m_def)
  have eq: "fixed_digits f x = take (length m - f) m @ CHR ''.'' # drop (length m - f) m"
    using assms by (simp add: fixed_digits_def Let_def m_def m0_def)
  have "take (length m - f) m \<noteq> []" using len by (cases m) auto
  moreover have "list_all is_digit (take (length m - f) m)"
    using d by (auto simp: list_all_iff dest: in_set_takeD)
  moreover have "list_all is_digit (drop (length m - f) m)"
    using d by (auto simp: list_all_iff dest: in_set_dropD)
  moreover have "length (drop (length m - f) m) = f" using len by simp
  ultimately show ?thesis using eq by blast
qed

lemma Number_of_fixed:
  assumes "0 \<le> x" and "0 < f"
  shows "\<exists>v. Number_of_string (toFixed f (Fin x)) = Fin v"
proof -
  obtain a b where ab: "fixed_digits f x = a @ CHR ''.'' # b" "a \<noteq> []" "list_all is_digit a"
      "list_all is_digit b"
    using fixed_digits_shape [OF assms(2), of x] by blast
  obtain c a' where a: "a = c # a'" using ab(2) by (cases a) auto
  have c: "is_digit c" using ab(3) a by simp
  then have c': "c \<noteq> CHR ''-''" "c \<noteq> CHR ''I''" by (auto simp: is_digit_def)
  have nd: "\<not> is_digit CHR ''.''" by (simp add: is_digit_def)
  have tw: "takeWhile is_digit (a @ CHR ''.'' # b) = a"
    using ab(3) nd by (simp add: takeWhile_append2 list_all_iff)
  have dw: "dropWhile is_digit (a @ CHR ''.'' # b) = CHR ''.'' # b"
    using ab(3) nd by (simp add: dropWhile_append2 list_all_iff)
  have "StrDecimalLiteral (a @ CHR ''.'' # b) \<noteq> None"
    using ab(2,4) by (simp add: StrDecimalLiteral_def tw dw Let_def)
  then obtain q where q: "StrDecimalLiteral (a @ CHR ''.'' # b) = Some q" by blast
  have "toFixed f (Fin x) = c # a' @ CHR ''.'' # b"
    using assms(1) ab(1) a by simp
  then have "Number_of_string (toFixed f (Fin x)) = Fin (fl q)"
    using c' q a by (simp add: Number_of_string_def)
  then show ?thesis by blast
qed

lemma respond_simps [simp]:
  "json (respond st b) = b" "status (respond st b) = st" "text_body (respond st b) = []"
  by (simp_all add: respond_def)

lemma ok_respond [simp]: "ok (respond st b) = (200 \<le> st \<and> st \<le> 299)"
  by (simp add: ok_def)

subsection \<open>The retry wrapper\<close>

lemma fetchWithRetry_loop_limited:
  "attempt \<le> maxRetries \<Longrightarrow> status (fetch (calls s)) = 429 \<Longrightarrow> next_attempt = attempt + 1 \<Longrightarrow>
   fetchWithRetry_loop fetch maxRetries attempt s =
   fetchWithRetry_loop fetch maxRetries next_attempt
     (s\<lparr>calls := Suc (calls s), waits := waits s @ [attempt * 2000]\<rparr>)"
  by (subst fetchWithRetry_loop.simps) (simp add: Let_def)

lemma fetchWithRetry_loop_exhausted:
  "maxRetries < attempt \<Longrightarrow>
   fetchWithRetry_loop fetch maxRetries attempt s =
   (fetch (calls s), s\<lparr>calls := Suc (calls s)\<rparr>)"
  by (subst fetchWithRetry_loop.simps) simp

lemma fetchWithRetry_loop_answered:
  "attempt \<le> maxRetries \<Longrightarrow> status (fetch (calls s)) \<noteq> 429 \<Longrightarrow>
   fetchWithRetry_loop fetch maxRetries attempt s =
   (fetch (calls s), s\<lparr>calls := Suc (calls s)\<rparr>)"
  by (subst fetchWithRetry_loop.simps) (simp add: Let_def)

lemma fetchWithRetry_three_limited:
  assumes a1: "status (fetch (calls s)) = 429"
    and a2: "status (fetch (Suc (calls s))) = 429"
    and a3: "status (fetch (Suc (Suc (calls s)))) = 429"
  shows "fetchWithRetry fetch s =
    (fetch (calls s + 3), s\<lparr>calls := calls s + 4, waits := waits s @ [2000, 4000, 6000]\<rparr>)"
proof -
  define s1 where "s1 = s\<lparr>calls := Suc (calls s), waits := waits s @ [1 * 2000]\<rparr>"
  define s2 where "s2 = s1\<lparr>calls := Suc (calls s1), waits := waits s1 @ [2 * 2000]\<rparr>"
  define s3 where "s3 = s2\<lparr>calls := Suc (calls s2), waits := waits s2 @ [3 * 2000]\<rparr>"
  have c1: "calls s1 = Suc (calls s)" and c2: "calls s2 = Suc (Suc (calls s))"
    and c3: "calls s3 = Suc (Suc (Suc (calls s)))"
    by (simp_all add: s1_def s2_def s3_def)
  have "fetchWithRetry fetch s = fetchWithRetry_loop fetch 3 1 s"
    by (simp only: fetchWithRetry_def)
  also have "\<dots> = fetchWithRetry_loop fetch 3 2 s1"
    unfolding s1_def by (rule fetchWithRetry_loop_limited) (simp_all add: a1)
  also have "\<dots> = fetchWithRetry_loop fetch 3 3 s2"
    unfolding s2_def by (rule fetchWithRetry_loop_limited) (simp_all add: a2 c1)
  also have "\<dots> = fetchWithRetry_loop fetch 3 4 s3"
    unfolding s3_def by (rule fetchWithRetry_loop_limited) (simp_all add: a3 c2)
  also have "\<dots> = (fetch (calls s3), s3\<lparr>calls := Suc (calls s3)\<rparr>)"
    by (rule fetchWithRetry_loop_exhausted) simp
  finally have "fetchWithRetry fetch s = (fetch (calls s3), s3\<lparr>calls := Suc (calls s3)\<rparr>)" .
  moreover have "calls s3 = calls s + 3"
    by (simp add: c3)
  moreover have "s3\<lparr>calls := Suc (calls s3)\<rparr>
      = s\<lparr>calls := calls s + 4, waits := waits s @ [2000, 4000, 6000]\<rparr>"
    by (simp add: s1_def s2_def s3_def)
  ultimately show ?thesis by (simp only:)
qed

lemma fetchWithRetry_answered:
  "status (fetch (calls s)) \<noteq> 429 \<Longrightarrow>
   fetchWithRetry fetch s = (fetch (calls s), s\<lparr>calls := Suc (calls s)\<rparr>)"
  unfolding fetchWithRetry_def by (rule fetchWithRetry_loop_answered) simp_all

text \<open>A batch of one request does what the wrapper does with that request.\<close>

lemma fetch_single_with_retry:
  "fetch_matches_with_retry up [mid] s =
     (let (matchRes, s') = fetchWithRetry (\<lambda>n. match_by_id up n mid) s
      in ([if \<not> ok matchRes then None else Some (json matchRes)], s'))"
proof (cases "status (match_by_id up (calls s) mid) = 429")
  case False
  then show ?thesis
    by (simp add: fetch_matches_with_retry_def fetchWithRetry_answered Let_def)
next
  case a1: True
  show ?thesis
  proof (cases "status (match_by_id up (Suc (calls s)) mid) = 429")
    case False
    have "fetchWithRetry (\<lambda>n. match_by_id up n mid) s
            = fetchWithRetry_loop (\<lambda>n. match_by_id up n mid) 3 2
                (s\<lparr>calls := Suc (calls s), waits := waits s @ [1 * 2000]\<rparr>)"
      unfolding fetchWithRetry_def by (rule fetchWithRetry_loop_limited) (simp_all add: a1)
    also have "\<dots> = (match_by_id up (Suc (calls s)) mid,
                      s\<lparr>calls := Suc (Suc (calls s)), waits := waits s @ [2000]\<rparr>)"
      using False by (subst fetchWithRetry_loop_answered) simp_all
    finally show ?thesis
      using a1 False by (simp add: fetch_matches_with_retry_def Let_def)
  next
    case a2: True
    show ?thesis
    proof (cases "status (match_by_id up (Suc (Suc (calls s))) mid) = 429")
      case False
      have "fetchWithRetry (\<lambda>n. match_by_id up n mid) s
              = fetchWithRetry_loop (\<lambda>n. match_by_id up n mid) 3 2
                  (s\<lparr>calls := Suc (calls s), waits := waits s @ [1 * 2000]\<rparr>)"
        unfolding fetchWithRetry_def by (rule fetchWithRetry_loop_limited) (simp_all add: a1)
      also have "\<dots> = fetchWithRetry_loop (\<lambda>n. match_by_id up n mid) 3 3
                  (s\<lparr>calls := Suc (Suc (calls s)), waits := waits s @ [2000, 4000]\<rparr>)"
        using a2 by (subst fetchWithRetry_loop_limited [where next_attempt = 3]) simp_all
      also have "\<dots> = (match_by_id up (Suc (Suc (calls s))) mid,
                      s\<lparr>calls := Suc (Suc (Suc (calls s))), waits := waits s @ [2000, 4000]\<rparr>)"
        using False by (subst fetchWithRetry_loop_answered) simp_all
      finally show ?thesis
        using a1 a2 False by (simp add: fetch_matches_with_retry_def Let_def)
    next
      case a3: True
      have n3: "calls s + 3 = Suc (Suc (Suc (calls s)))"
        and n4: "calls s + 4 = Suc (Suc (Suc (Suc (calls s))))" by simp_all
      have "fetchWithRetry (\<lambda>n. match_by_id up n mid) s
              = (match_by_id up (Suc (Suc (Suc (calls s)))) mid,
                 s\<lparr>calls := Suc (Suc (Suc (Suc (calls s)))),
                   waits := waits s @ [2000, 4000, 6000]\<rparr>)"
        using fetchWithRetry_three_limited [of "\<lambda>n. match_by_id up n mid" s] a1 a2 a3
        by (simp only: n3 n4)
      then show ?thesis
        using a1 a2 a3 by (simp add: fetch_matches_with_retry_def Let_def)
    qed
  qed
qed

text \<open>
  C1. When every attempt is rate-limited, the wrapper should stop after three requests
  and hand back the third response. The code sleeps 2 s, 4 s and 6 s (linear) after the
  three attempts of the loop, then sends the request a fourth time and returns that
  fourth response, whatever it is: against an upstream that always answers 429 it
  makes 4 requests, and against one that recovers on its fourth answer the caller
  receives the 200.
\<close>

theorem fetchWithRetry_sends_fourth_request:
  "fetchWithRetry always_429 net0 =
     (\<lparr>status = 429, text_body = ''rate limited'', json = ()\<rparr>,
      \<lparr>calls = 4, waits = [2000, 4000, 6000]\<rparr>)
   \<and> fetchWithRetry recovers_at_4th net0 =
     (\<lparr>status = 200, text_body = ''fine'', json = ()\<rparr>,
      \<lparr>calls = 4, waits = [2000, 4000, 6000]\<rparr>)"
  by (simp add: fetchWithRetry_three_limited always_429_def recovers_at_4th_def net0_def)

subsection \<open>Player statistics: the required lookups\<close>

text \<open>
  C4. Rate-limiting that outlasts the retries of a required lookup should reach the
  caller as a 429. It does for the account lookup. For the summoner lookup it does
  not: against a provider that answers 429 to every summoner request, the handler
  exhausts the retries and then answers 404 \<open>Summoner not found\<close>.
\<close>

theorem summoner_rate_limit_reported_as_not_found:
  "stats_POST summoner_rate_limited example_request net0 =
     (\<lparr>code = 404, reply = Error_reply ''Summoner not found'' None\<rparr>,
      \<lparr>calls = 5, waits = [2000, 4000, 6000]\<rparr>)"
proof -
  have a: "fetchWithRetry (\<lambda>n. account_by_riot_id summoner_rate_limited n ''pikachu'' ''001'') net0
           = (respond 200 \<lparr>account_puuid = ''P1''\<rparr>, \<lparr>calls = Suc 0, waits = []\<rparr>)"
    by (subst fetchWithRetry_answered)
       (simp_all add: summoner_rate_limited_def example_upstream_def respond_def net0_def)
  have b: "fetchWithRetry (\<lambda>n. summoner_by_puuid summoner_rate_limited n ''P1'')
             \<lparr>calls = Suc 0, waits = []\<rparr>
           = (respond 429 \<lparr>summoner_id = []\<rparr>, \<lparr>calls = 5, waits = [2000, 4000, 6000]\<rparr>)"
    by (subst fetchWithRetry_three_limited)
       (simp_all add: summoner_rate_limited_def example_upstream_def respond_def)
  show ?thesis
    by (simp add: stats_POST_def example_request_def falsy_def a b Let_def)
qed

subsection \<open>Match history\<close>

text \<open>
  C9. In an entry of the match history, \<open>isRemake\<close> holds exactly when the game lasted
  less than 180 seconds, or its mode is \<open>PRACTICETOOL\<close> or \<open>TUTORIAL\<close>, or its type is
  \<open>CUSTOM_GAME\<close>. It does not depend on the participants, hence not on who won.
\<close>

theorem isRemake_iff:
  assumes "match_entry pu now m = Inr ms"
  shows "isRemake ms =
           (gameDuration (info m) < 180 \<or> gameMode (info m) = ''PRACTICETOOL''
            \<or> gameType (info m) = ''CUSTOM_GAME'' \<or> gameMode (info m) = ''TUTORIAL'')
         \<and> (\<forall>pu' now' ps' ms'.
               match_entry pu' now' (m\<lparr>info := (info m)\<lparr>participants := ps'\<rparr>\<rparr>) = Inr ms'
               \<longrightarrow> isRemake ms' = isRemake ms)"
  using assms by (auto simp: match_entry_def Let_def split: option.splits)

lemma example_remake_entry:
  "match_entry ''P1'' 0 example_remake =
     Inr \<lparr>summary_win = True, summary_champion = ''Ahri'',
          blueTeam = [\<lparr>player_summonerName = ''summoner'', player_championName = ''Ahri'',
                       player_teamId = 100, player_kills = 5, player_deaths = 0,
                       player_assists = 7, player_role = ''mid'', isCurrentPlayer = True,
                       player_puuid = ''P1''\<rparr>],
          redTeam = [], summary_gameMode = ''Ranked Solo/Duo'',
          summary_gameDuration = ''2:00'', gameDurationSeconds = 120,
          timeAgo = ''0 minutes ago'', isRemake = True, summary_matchId = ''M9''\<rparr>"
  by (simp add: match_entry_def example_remake_def example_participant_def allPlayers_entry_def
      getRole_def Array_sort_Cons getGameModeName_def queueMap_def formatGameDuration_def
      getTimeAgo_def string_of_int_def padStart_def string_of_nat_digit digit_char_def)

theorem isRemake_iff_witness:
  "match_entry ''P1'' 0 example_remake =
     Inr \<lparr>summary_win = True, summary_champion = ''Ahri'',
          blueTeam = [\<lparr>player_summonerName = ''summoner'', player_championName = ''Ahri'',
                       player_teamId = 100, player_kills = 5, player_deaths = 0,
                       player_assists = 7, player_role = ''mid'', isCurrentPlayer = True,
                       player_puuid = ''P1''\<rparr>],
          redTeam = [], summary_gameMode = ''Ranked Solo/Duo'',
          summary_gameDuration = ''2:00'', gameDurationSeconds = 120,
          timeAgo = ''0 minutes ago'', isRemake = True, summary_matchId = ''M9''\<rparr>
   \<and> gameDuration (info example_remake) < 180"
  using isRemake_iff [OF example_remake_entry] example_remake_entry
  by (simp add: example_remake_def)

text \<open>
  C2. Each team of an entry should be in the order top, jungle, mid, adc, support, with
  a participant of unknown role last. \<open>indexOf\<close> gives an unknown role the index -1, so
  the comparator puts it in front of every known role: the blue side listed as support,
  unknown, top comes out as unknown, top, support.
\<close>

theorem unknown_role_sorts_first:
  "\<exists>ms. match_entry ''P1'' 0 example_unplaced = Inr ms
        \<and> map player_role (blueTeam ms) = [''unknown'', ''top'', ''support'']
        \<and> map player_championName (blueTeam ms) = [''Teemo'', ''Garen'', ''Thresh'']"
  by (simp add: match_entry_def example_unplaced_def example_match_def example_participant_def
      allPlayers_entry_def getRole_def Array_sort_Cons sortByRole_def roleOrder_def js_eval)

lemma fetch_matches_length [simp]: "length (fetch_matches up n ids) = length ids"
  by (induction ids arbitrary: n) (simp_all add: Let_def)

lemma fetch_matches_nth:
  "i < length ids \<Longrightarrow>
   fetch_matches up n ids ! i =
     (if ok (match_by_id up (n + i) (ids ! i))
      then Some (json (match_by_id up (n + i) (ids ! i))) else None)"
proof (induction ids arbitrary: n i)
  case Nil
  then show ?case by simp
next
  case (Cons a ids)
  then show ?case by (cases i) (simp_all add: Let_def)
qed

lemma set_filter_Boolean: "set (filter_Boolean xs) = {v. Some v \<in> set xs}"
  by (induction xs) (auto split: option.splits)


lemma match_entry_missing:
  "find (\<lambda>p. puuid p = pu) (participants (info m)) = None \<Longrightarrow>
   match_entry pu now m = Inl (TypeError ''Cannot read properties of undefined (reading 'win')'')"
  by (simp add: match_entry_def Let_def)


lemma map_throwing_throws:
  assumes "m \<in> set ms" and "\<And>k. f k m = Inl err"
    and "\<And>k m' e. f k m' = Inl e \<Longrightarrow> e = err"
  shows "map_throwing f i ms = Inl err"
  using assms(1)
proof (induction ms arbitrary: i)
  case Nil
  then show ?case by simp
next
  case (Cons a ms)
  show ?case
  proof (cases "f i a")
    case (Inl e)
    then show ?thesis using assms(3) by simp
  next
    case (Inr y)
    then have "a \<noteq> m" using assms(2) [of i] by auto
    then have "m \<in> set ms" using Cons.prems by simp
    then show ?thesis using Cons.IH Inr by simp
  qed
qed


text \<open>
  C5. When a match of the history is fetched and the player is not among its
  participants, the whole handler answers 500 \<open>Internal server error\<close>: reading
  \<open>participant.win\<close> throws inside the callback of \<open>map\<close>, and the handler's \<open>catch\<close>
  turns that into the response. The match is not merely left out.
\<close>

theorem missing_participant_fails_handler:
  assumes "gameName req = Some g" and "g \<noteq> []" and "tagLine req = Some t" and "t \<noteq> []"
    and "ok (account_by_riot_id up (calls s) g t)"
    and "pu = account_puuid (json (account_by_riot_id up (calls s) g t))"
    and "ok (match_ids_by_puuid up (calls s + 1) pu None 20)"
    and "ids = json (match_ids_by_puuid up (calls s + 1) pu None 20)"
    and "i < length ids"
    and "ok (match_by_id up (calls s + 2 + i) (ids ! i))"
    and "find (\<lambda>p. puuid p = pu)
           (participants (info (json (match_by_id up (calls s + 2 + i) (ids ! i))))) = None"
  shows "fst (history_POST up clock req s) =
           \<lparr>code = 500,
            reply = Error_reply ''Internal server error''
                      (Some (String_of_error (TypeError ''Cannot read properties of undefined (reading 'win')'')))\<rparr>"
proof -
  let ?m = "json (match_by_id up (calls s + 2 + i) (ids ! i))"
  let ?err = "TypeError ''Cannot read properties of undefined (reading 'win')''"
  have "fetch_matches up (calls s + 2) ids ! i = Some ?m"
    using assms(9,10) by (simp add: fetch_matches_nth add.assoc)
  then have "Some ?m \<in> set (fetch_matches up (calls s + 2) ids)"
    using assms(9) by (metis fetch_matches_length nth_mem)
  then have mem: "?m \<in> set (filter_Boolean (fetch_matches up (calls s + 2) ids))"
    by (simp add: set_filter_Boolean)
  have "map_throwing (\<lambda>k. match_entry pu (clock k)) 0
          (filter_Boolean (fetch_matches up (calls s + 2) ids)) = Inl ?err"
  proof (rule map_throwing_throws [OF mem])
    show "\<And>k. match_entry pu (clock k) ?m = Inl ?err"
      using assms(11) by (simp add: match_entry_missing)
    show "\<And>k m' e. match_entry pu (clock k) m' = Inl e \<Longrightarrow> e = ?err"
      by (auto simp: match_entry_def Let_def split: option.splits)
  qed
  then show ?thesis
    using assms(1-8) by (simp add: history_POST_def falsy_def Let_def)
qed

theorem missing_participant_fails_handler_witness:
  "ok (account_by_riot_id strangers_upstream (calls net0) ''pikachu'' ''001'')
   \<and> ok (match_ids_by_puuid strangers_upstream (calls net0 + 1) ''P1'' None 20)
   \<and> json (match_ids_by_puuid strangers_upstream (calls net0 + 1) ''P1'' None 20)
       = [''M1'', ''M2'', ''M3'']
   \<and> ok (match_by_id strangers_upstream (calls net0 + 2 + 0) ([''M1'', ''M2'', ''M3''] ! 0))
   \<and> find (\<lambda>p. puuid p = ''P1'')
         (participants (info (json (match_by_id strangers_upstream (calls net0 + 2 + 0)
                                      ([''M1'', ''M2'', ''M3''] ! 0))))) = None
   \<and> fst (history_POST strangers_upstream (\<lambda>k. 0) example_request net0) =
         \<lparr>code = 500,
          reply = Error_reply ''Internal server error''
                    (Some (String_of_error (TypeError ''Cannot read properties of undefined (reading 'win')'')))\<rparr>"
proof -
  have h5: "ok (account_by_riot_id strangers_upstream (calls net0) ''pikachu'' ''001'')"
    and h6: "''P1'' = account_puuid (json (account_by_riot_id strangers_upstream (calls net0)
                                            ''pikachu'' ''001''))"
    and h7: "ok (match_ids_by_puuid strangers_upstream (calls net0 + 1) ''P1'' None 20)"
    and h8: "[''M1'', ''M2'', ''M3'']
               = json (match_ids_by_puuid strangers_upstream (calls net0 + 1) ''P1'' None 20)"
    and h10: "ok (match_by_id strangers_upstream (calls net0 + 2 + 0) ([''M1'', ''M2'', ''M3''] ! 0))"
    and h11: "find (\<lambda>p. puuid p = ''P1'')
         (participants (info (json (match_by_id strangers_upstream (calls net0 + 2 + 0)
                                      ([''M1'', ''M2'', ''M3''] ! 0))))) = None"
    by (simp_all add: strangers_upstream_def example_upstream_def example_match_def
        example_participant_def)
  have "fst (history_POST strangers_upstream (\<lambda>k. 0) example_request net0) =
         \<lparr>code = 500,
          reply = Error_reply ''Internal server error''
                    (Some (String_of_error (TypeError ''Cannot read properties of undefined (reading 'win')'')))\<rparr>"
    by (rule missing_participant_fails_handler [where g = "''pikachu''" and t = "''001''"
          and pu = "''P1''" and ids = "[''M1'', ''M2'', ''M3'']" and i = 0,
          OF _ _ _ _ h5 h6 h7 h8 _ h10 h11])
       (simp_all add: example_request_def)
  then show ?thesis using h5 h7 h8 h10 h11 by simp
qed




text \<open>
  C3. The claim has a rate-limited account lookup retried before the handler gives up.
  The history handler sends the lookup with plain \<open>fetch\<close>: against a provider that
  rate-limits only the first request, it answers 404 after that one request, although
  a second attempt would have succeeded.
\<close>

theorem history_account_failure_counterexample:
  "status (account_by_riot_id rate_limited_once 0 ''pikachu'' ''001'') = 429
   \<and> ok (account_by_riot_id rate_limited_once 1 ''pikachu'' ''001'')
   \<and> history_POST rate_limited_once (\<lambda>k. 0) example_request net0 =
       (\<lparr>code = 404, reply = Error_reply ''Account not found'' None\<rparr>,
        \<lparr>calls = 1, waits = []\<rparr>)"
  by (simp add: history_POST_def rate_limited_once_def example_upstream_def example_request_def
      net0_def falsy_def respond_def ok_def Let_def)

text \<open>
  C3, as amended. When the account lookup gets any non-success status, 429 included,
  the history handler answers 404 \<open>Account not found\<close>, having sent that one request and
  no other, and without waiting.
\<close>

theorem history_account_failure:
  assumes "gameName req = Some g" and "g \<noteq> []" and "tagLine req = Some t" and "t \<noteq> []"
    and "\<not> ok (account_by_riot_id up (calls s) g t)"
  shows "history_POST up clock req s =
           (\<lparr>code = 404, reply = Error_reply ''Account not found'' None\<rparr>,
            s\<lparr>calls := calls s + 1\<rparr>)"
  using assms by (simp add: history_POST_def falsy_def Let_def)

theorem history_account_failure_witness:
  "\<not> ok (account_by_riot_id rate_limited_once (calls net0) ''pikachu'' ''001'')
   \<and> history_POST rate_limited_once (\<lambda>k. 0) example_request net0 =
       (\<lparr>code = 404, reply = Error_reply ''Account not found'' None\<rparr>,
        net0\<lparr>calls := calls net0 + 1\<rparr>)"
proof -
  have h: "\<not> ok (account_by_riot_id rate_limited_once (calls net0) ''pikachu'' ''001'')"
    by (simp add: rate_limited_once_def example_upstream_def net0_def respond_def ok_def)
  show ?thesis
    using h history_account_failure [of example_request "''pikachu''" "''001''"
        rate_limited_once net0 "\<lambda>k. 0", OF _ _ _ _ h]
    by (simp add: example_request_def)
qed

subsection \<open>Match details\<close>

text \<open>
  C10. For all counts of kills, assists and deaths, the \<open>kda\<close> of the match details is
  (kills + assists) / max(deaths, 1) printed with two decimals: the divisor is never
  zero, the quotient is a finite number, and 5 kills, 7 assists and 0 deaths give
  \<open>12.00\<close>.
\<close>

theorem kda_formula:
  "kda_of k a d = toFixed 2 (js_div (Num (k + a)) (Num (max d 1)))
   \<and> Num (max d 1) \<noteq> Fin 0
   \<and> (\<exists>q. js_div (Num (k + a)) (Num (max d 1)) = Fin q)
   \<and> kda (playerStats_of m p) = kda_of (kills p) (assists p) (deaths p)
   \<and> kda_of 5 7 0 = ''12.00''"
proof -
  have nz: "(of_nat (max d 1) :: rat) \<noteq> 0"
    by (metis max.cobounded2 not_one_le_zero of_nat_eq_0_iff)
  have zero: "kda_of 0 0 d = toFixed 2 (js_div (Num (0 + 0)) (Num (max d 1)))"
    using nz by (simp add: kda_of_def js_eval)
  have "kda_of k a d = toFixed 2 (js_div (Num (k + a)) (Num (max d 1)))"
  proof (cases "0 < k + a")
    case True
    then show ?thesis by (simp add: kda_of_def)
  next
    case False
    then have "k = 0" "a = 0" by simp_all
    then show ?thesis using zero by simp
  qed
  moreover have "Num (max d 1) \<noteq> Fin 0"
    using nz by (simp add: Num_def)
  moreover have "\<exists>q. js_div (Num (k + a)) (Num (max d 1)) = Fin q"
    using nz by (simp add: Num_def)
  moreover have "kda (playerStats_of m p) = kda_of (kills p) (assists p) (deaths p)"
    by (simp add: playerStats_of_def)
  moreover have "kda_of 5 7 0 = ''12.00''"
    by (simp add: kda_of_def js_eval)
  ultimately show ?thesis by blast
qed

text \<open>
  C8. When the match is fetched, the player is among its participants and the timeline
  request gets a non-success response, the match-details handler answers 200 with an
  empty \<open>playerTimeline\<close>; \<open>playerStats\<close>, \<open>teamObjectives\<close> and \<open>matchInfo\<close> are
  what they are computed to be from the match.
\<close>

theorem timeline_failure_degrades:
  assumes "request_matchId req = Some mid" and "mid \<noteq> []"
    and "request_puuid req = Some pu" and "pu \<noteq> []"
    and "ok (match_by_id up (calls s) mid)"
    and "\<not> ok (timeline_by_id up (calls s + 1) mid)"
    and "find (\<lambda>p. puuid p = pu) (participants (info (json (match_by_id up (calls s) mid))))
           = Some currentPlayer"
  shows "fst (details_POST up req s) =
           \<lparr>code = 200,
            reply = Data_reply
              \<lparr>playerStats = playerStats_of (json (match_by_id up (calls s) mid)) currentPlayer,
               playerTimeline = [],
               teamObjectives = teamObjectives_of (json (match_by_id up (calls s) mid)),
               matchInfo = matchInfo_of (json (match_by_id up (calls s) mid))\<rparr>\<rparr>"
  using assms by (simp add: details_POST_def Let_def falsy_def playerTimeline_of_def)

theorem timeline_failure_degrades_witness:
  "ok (match_by_id example_upstream (calls net0) ''M1'')
   \<and> \<not> ok (timeline_by_id example_upstream (calls net0 + 1) ''M1'')
   \<and> find (\<lambda>p. puuid p = ''P1'')
        (participants (info (json (match_by_id example_upstream (calls net0) ''M1''))))
       = Some (example_participant ''P1'' ''Ahri'' 100 ''MIDDLE'' True 0 0)
   \<and> fst (details_POST example_upstream
              \<lparr>request_matchId = Some ''M1'', request_puuid = Some ''P1''\<rparr> net0) =
         \<lparr>code = 200,
          reply = Data_reply
            \<lparr>playerStats =
               playerStats_of (example_match ''M1'' [example_participant ''P1'' ''Ahri'' 100 ''MIDDLE'' True 0 0])
                 (example_participant ''P1'' ''Ahri'' 100 ''MIDDLE'' True 0 0),
             playerTimeline = [],
             teamObjectives = [],
             matchInfo = \<lparr>matchInfo_gameCreation = 0, matchInfo_gameDuration = 1800,
                          matchInfo_gameMode = ''CLASSIC'', matchInfo_queueId = 420\<rparr>\<rparr>\<rparr>"
proof -
  have m: "match_by_id example_upstream (calls net0) ''M1''
             = respond 200 (example_match ''M1'' [example_participant ''P1'' ''Ahri'' 100 ''MIDDLE'' True 0 0])"
    by (simp add: example_upstream_def)
  have h1: "ok (match_by_id example_upstream (calls net0) ''M1'')"
    by (simp add: m)
  have h2: "\<not> ok (timeline_by_id example_upstream (calls net0 + 1) ''M1'')"
    by (simp add: example_upstream_def respond_def ok_def)
  have h3: "find (\<lambda>p. puuid p = ''P1'')
        (participants (info (json (match_by_id example_upstream (calls net0) ''M1''))))
       = Some (example_participant ''P1'' ''Ahri'' 100 ''MIDDLE'' True 0 0)"
    by (simp add: m example_match_def example_participant_def)
  show ?thesis
    using h1 h2 h3
      timeline_failure_degrades [of "\<lparr>request_matchId = Some ''M1'', request_puuid = Some ''P1''\<rparr>"
        "''M1''" "''P1''" example_upstream net0, OF _ _ _ _ h1 h2 h3]
    by (simp add: m teamObjectives_of_def matchInfo_of_def example_match_def)
qed


subsection \<open>Player statistics: winrates by champion\<close>

lemma map_fst_obj_update [simp]: "map fst (obj_update k f st) = map fst st"
  by (induction st) auto

lemma map_of_obj_update:
  "map_of (obj_update k f st) k' = (if k' = k then map_option f (map_of st k) else map_of st k')"
  by (induction st) auto

lemma count_match_absent:
  "find (\<lambda>p. puuid p = pu) (participants (info m)) = None \<Longrightarrow> count_match pu st m = st"
  by (simp add: count_match_def)

lemma count_match_present:
  assumes "find (\<lambda>p. puuid p = pu) (participants (info m)) = Some p"
  shows "map_of (count_match pu st m) k =
           (if k = championName p
            then Some (counted p (case map_of st k of None \<Rightarrow>
                         \<lparr>counted_wins = 0, counted_losses = 0, totalDamage = 0, totalGold = 0\<rparr>
                       | Some c \<Rightarrow> c))
            else map_of st k)"
    and "map fst (count_match pu st m) =
           (if map_of st (championName p) = None then map fst st @ [championName p]
            else map fst st)"
  using assms
  by (auto simp: count_match_def Let_def map_of_obj_update counted_def map_add_def
      split: option.splits)


lemma tally_snoc:
  "tally name (ps @ [p]) = (if championName p = name then counted p (tally name ps) else tally name ps)"
  by (simp add: tally_def games_on_def counted_def)

lemma tally_none:
  "name \<notin> championName ` set ps \<Longrightarrow>
   tally name ps = \<lparr>counted_wins = 0, counted_losses = 0, totalDamage = 0, totalGold = 0\<rparr>"
proof -
  assume "name \<notin> championName ` set ps"
  then have "games_on name ps = []"
    by (auto simp: games_on_def filter_empty_conv)
  then show ?thesis by (simp add: tally_def)
qed

lemma foldl_count_match:
  fixes pu ms
  defines "F \<equiv> \<lambda>m. find (\<lambda>p. puuid p = pu) (participants (info m))"
  shows "distinct (map fst (foldl (count_match pu) [] ms))
         \<and> (\<forall>k. map_of (foldl (count_match pu) [] ms) k =
                  (if k \<in> championName ` set (List.map_filter F ms)
                   then Some (tally k (List.map_filter F ms)) else None))"
proof (induction ms rule: rev_induct)
  case Nil
  then show ?case by (simp add: map_filter_simps)
next
  case (snoc m ms)
  let ?st = "foldl (count_match pu) [] ms"
  let ?ps = "List.map_filter F ms"
  have d: "distinct (map fst ?st)"
    and mo: "\<And>k. map_of ?st k
                 = (if k \<in> championName ` set ?ps then Some (tally k ?ps) else None)"
    using snoc by simp_all
  show ?case
  proof (cases "F m")
    case None
    then have "count_match pu ?st m = ?st" unfolding F_def by (rule count_match_absent)
    moreover have "List.map_filter F (ms @ [m]) = ?ps"
      using None by (simp add: map_filter_def)
    ultimately show ?thesis using d mo by simp
  next
    case (Some p)
    then have f: "find (\<lambda>p. puuid p = pu) (participants (info m)) = Some p"
      by (simp add: F_def)
    have ps': "List.map_filter F (ms @ [m]) = ?ps @ [p]"
      using Some by (simp add: map_filter_def)
    have dom: "map_of ?st (championName p) = None \<longleftrightarrow> championName p \<notin> set (map fst ?st)"
      by (simp add: map_of_eq_None_iff)
    have "distinct (map fst (count_match pu ?st m))"
      using d dom by (simp add: count_match_present(2) [OF f])
    moreover have "map_of (count_match pu ?st m) k =
                  (if k \<in> championName ` set (?ps @ [p])
                   then Some (tally k (?ps @ [p])) else None)" for k
    proof (cases "k = championName p")
      case True
      show ?thesis
      proof (cases "k \<in> championName ` set ?ps")
        case True
        then show ?thesis
          using \<open>k = championName p\<close> mo [of k]
          by (simp add: count_match_present(1) [OF f] tally_snoc)
      next
        case False
        then show ?thesis
          using \<open>k = championName p\<close> mo [of k] tally_none [OF False]
          by (simp add: count_match_present(1) [OF f] tally_snoc)
      qed
    next
      case False
      then show ?thesis
        using mo [of k] by (simp add: count_match_present(1) [OF f] tally_snoc)
    qed
    ultimately show ?thesis by (simp add: ps')
  qed
qed


lemma set_Object_entries [simp]: "set (Object_entries kvs) = set kvs"
  by (auto simp: Object_entries_def)

lemma length_Object_entries [simp]: "length (Object_entries kvs) = length kvs"
  by (simp add: Object_entries_def sum_length_filter_compl)

lemma champion_winrate_row [simp]: "champion (winrate_row kv) = fst kv"
  by (cases kv) (simp add: winrate_row_def)

lemma winrate_row_parses:
  assumes "0 < counted_wins c + counted_losses c"
  shows "\<exists>v. Number_of_string (winrate (winrate_row (k, c))) = Fin v"
proof -
  let ?w = "counted_wins c" and ?t = "counted_wins c + counted_losses c"
  have t: "(of_nat ?t :: rat) \<noteq> 0" using assms by (simp only: of_nat_eq_0_iff)
  have "js_mul (js_div (Num ?w) (Num ?t)) (Num 100)
          = Fin (fl (fl (of_nat ?w / of_nat ?t) * 100))"
    using t by (simp add: Num_def)
  moreover have "0 \<le> fl (fl (of_nat ?w / of_nat ?t :: rat) * 100)"
    by (intro fl_nonneg mult_nonneg_nonneg) simp_all
  ultimately have "\<exists>v. Number_of_string (toFixed 1 (js_mul (js_div (Num ?w) (Num ?t)) (Num 100)))
                     = Fin v"
    using Number_of_fixed [of _ 1] by simp
  then show ?thesis using assms by (simp add: winrate_row_def)
qed

lemma sorted_by_winrate_desc:
  assumes "\<And>r. r \<in> set rows \<Longrightarrow> \<exists>v. Number_of_string (winrate r) = Fin v"
  shows "sorted_wrt (\<lambda>a b. num_le (Number_of_string (winrate b)) (Number_of_string (winrate a)))
           (Array_sort by_winrate_desc rows)"
proof -
  define key where "key r = (case Number_of_string (winrate r) of Fin v \<Rightarrow> - v | _ \<Rightarrow> 0)"
    for r :: ChampionWinrate
  have cmp: "positive (by_winrate_desc x y) = (key y < key x)"
    if "x \<in> set rows" "y \<in> set rows" for x y
  proof -
    from assms [OF that(1)] obtain vx where "Number_of_string (winrate x) = Fin vx" ..
    moreover from assms [OF that(2)] obtain vy where "Number_of_string (winrate y) = Fin vy" ..
    ultimately show ?thesis by (simp add: by_winrate_desc_def key_def fl_pos_iff)
  qed
  have "Array_sort by_winrate_desc rows = sort_key key rows"
    using cmp by (rule Array_sort_eq_sort_key)
  moreover have "sorted (map key (sort_key key rows))" by simp
  ultimately have "sorted_wrt (\<lambda>a b. key a \<le> key b) (Array_sort by_winrate_desc rows)"
    by (simp add: sorted_map)
  moreover have "num_le (Number_of_string (winrate b)) (Number_of_string (winrate a))"
    if "a \<in> set (Array_sort by_winrate_desc rows)" "b \<in> set (Array_sort by_winrate_desc rows)"
      "key a \<le> key b" for a b
  proof -
    from that(1) have "a \<in> set rows" by simp
    from assms [OF this] obtain va where "Number_of_string (winrate a) = Fin va" ..
    moreover from that(2) have "b \<in> set rows" by simp
    from assms [OF this] obtain vb where "Number_of_string (winrate b) = Fin vb" ..
    ultimately show ?thesis using that(3) by (simp add: key_def)
  qed
  ultimately show ?thesis
    by (rule sorted_wrt_mono_rel [rotated])
qed


lemma example_sample_winrates:
  "champion_winrates ''P1'' example_sample =
     [\<lparr>champion = ''Ahri'', wins = 1, losses = 1, winrate = ''50.0'', totalGames = 2,
       avgDamage = Fin 15000, avgGold = Fin 9000\<rparr>]"
  by (simp add: champion_winrates_def example_sample_def example_match_def
      example_participant_def count_match_def Object_entries_def is_array_index_def
      is_digit_def winrate_row_def Array_sort_Cons js_eval)

text \<open>
  C6. For every list of fetched sample matches, the rows of \<open>winrates\<close> are one per
  champion the player played: \<open>wins\<close> and \<open>losses\<close> count the player's won and lost games
  on that champion, \<open>totalGames\<close> is their sum, \<open>winrate\<close> is wins / totalGames * 100 printed
  with one decimal, \<open>avgDamage\<close> and \<open>avgGold\<close> are the sums of damage and of gold over those
  games, divided by \<open>totalGames\<close> and rounded to an integer; the rows are in descending
  order of the number their \<open>winrate\<close> denotes; and a won game on Ahri with 20000 damage
  and 10000 gold followed by a lost one with 10000 and 8000 give the single row
  1, 1, \<open>50.0\<close>, 2, 15000, 9000.
\<close>

theorem champion_winrates_aggregate:
  "distinct (map champion (champion_winrates pu matchDetails))
   \<and> set (map champion (champion_winrates pu matchDetails))
       = championName ` set (played pu matchDetails)
   \<and> (\<forall>r \<in> set (champion_winrates pu matchDetails).
         wins r = length (filter win (games_on (champion r) (played pu matchDetails)))
         \<and> losses r
             = length (filter (\<lambda>p. \<not> win p) (games_on (champion r) (played pu matchDetails)))
         \<and> totalGames r = wins r + losses r
         \<and> 0 < totalGames r
         \<and> winrate r
             = toFixed 1 (js_mul (js_div (Num (wins r)) (Num (totalGames r))) (Num 100))
         \<and> avgDamage r
             = Math_round
                 (js_div (Num (sum_list (map totalDamageDealtToChampions
                                           (games_on (champion r) (played pu matchDetails)))))
                         (Num (totalGames r)))
         \<and> avgGold r
             = Math_round
                 (js_div (Num (sum_list (map goldEarned
                                           (games_on (champion r) (played pu matchDetails)))))
                         (Num (totalGames r))))
   \<and> sorted_wrt (\<lambda>a b. num_le (Number_of_string (winrate b)) (Number_of_string (winrate a)))
         (champion_winrates pu matchDetails)
   \<and> champion_winrates ''P1'' example_sample =
       [\<lparr>champion = ''Ahri'', wins = 1, losses = 1, winrate = ''50.0'', totalGames = 2,
         avgDamage = Fin 15000, avgGold = Fin 9000\<rparr>]"
proof -
  define st where "st = foldl (count_match pu) [] (filter_Boolean matchDetails)"
  define ps where "ps = played pu matchDetails"
  define rows where "rows = champion_winrates pu matchDetails"
  have rows: "rows = Array_sort by_winrate_desc (map winrate_row (Object_entries st))"
    by (simp add: rows_def champion_winrates_def st_def)
  have d: "distinct (map fst st)"
    and mo: "\<And>k. map_of st k = (if k \<in> championName ` set ps then Some (tally k ps) else None)"
    using foldl_count_match [of pu "filter_Boolean matchDetails"]
    by (simp_all add: st_def ps_def played_def)
  have entry: "k \<in> championName ` set ps \<and> c = tally k ps" if "(k, c) \<in> set st" for k c
  proof -
    have "map_of st k = Some c" using d that by simp
    then show ?thesis using mo [of k] by (auto split: if_splits)
  qed
  have total: "0 < counted_wins (tally k ps) + counted_losses (tally k ps)"
    and total_eq: "counted_wins (tally k ps) + counted_losses (tally k ps)
                     = length (games_on k ps)"
    if "k \<in> championName ` set ps" for k
  proof -
    show eq: "counted_wins (tally k ps) + counted_losses (tally k ps) = length (games_on k ps)"
      by (simp add: tally_def sum_length_filter_compl)
    have "games_on k ps \<noteq> []" using that by (auto simp: games_on_def filter_empty_conv)
    then show "0 < counted_wins (tally k ps) + counted_losses (tally k ps)"
      using eq by simp
  qed
  have row: "\<exists>k. k \<in> championName ` set ps \<and> r = winrate_row (k, tally k ps)"
    if "r \<in> set rows" for r
  proof -
    from that obtain k c where "(k, c) \<in> set st" "r = winrate_row (k, c)"
      by (auto simp: rows)
    then show ?thesis using entry by blast
  qed
  have "distinct (map fst (Object_entries st))"
    by (rule distinct_map_rearranged [OF _ _ d]) simp_all
  then have "distinct (map champion (map winrate_row (Object_entries st)))"
    by (simp add: comp_def)
  then have c1: "distinct (map champion rows)"
    unfolding rows by (rule distinct_map_rearranged [rotated 2]) simp_all
  have "fst ` set st = championName ` set ps"
  proof -
    have "fst ` set st = dom (map_of st)" by (simp add: dom_map_of_conv_image_fst)
    also have "\<dots> = championName ` set ps" using mo by (auto simp: dom_def)
    finally show ?thesis .
  qed
  then have c2: "set (map champion rows) = championName ` set ps"
    by (simp add: rows image_image)
  have c3: "wins r = length (filter win (games_on (champion r) ps))
         \<and> losses r = length (filter (\<lambda>p. \<not> win p) (games_on (champion r) ps))
         \<and> totalGames r = wins r + losses r
         \<and> 0 < totalGames r
         \<and> winrate r
             = toFixed 1 (js_mul (js_div (Num (wins r)) (Num (totalGames r))) (Num 100))
         \<and> avgDamage r
             = Math_round
                 (js_div (Num (sum_list (map totalDamageDealtToChampions
                                           (games_on (champion r) ps))))
                         (Num (totalGames r)))
         \<and> avgGold r
             = Math_round
                 (js_div (Num (sum_list (map goldEarned (games_on (champion r) ps))))
                         (Num (totalGames r)))"
    if "r \<in> set rows" for r
  proof -
    from row [OF that] obtain k where k: "k \<in> championName ` set ps"
      and r: "r = winrate_row (k, tally k ps)" by blast
    show ?thesis
      using total [OF k] unfolding r
      by (simp add: winrate_row_def) (simp add: tally_def)
  qed
  have "\<exists>v. Number_of_string (winrate r) = Fin v"
    if "r \<in> set (map winrate_row (Object_entries st))" for r
  proof -
    from that obtain k c where "(k, c) \<in> set st" "r = winrate_row (k, c)" by auto
    then show ?thesis using entry [of k c] total [of k] winrate_row_parses [of c k] by simp
  qed
  then have c4: "sorted_wrt
      (\<lambda>a b. num_le (Number_of_string (winrate b)) (Number_of_string (winrate a))) rows"
    unfolding rows by (rule sorted_by_winrate_desc)
  show ?thesis
    using c1 c2 c3 c4 example_sample_winrates unfolding rows_def ps_def by blast
qed


theorem champion_winrates_aggregate_witness:
  "champion_winrates ''P1'' example_sample =
     [\<lparr>champion = ''Ahri'', wins = 1, losses = 1, winrate = ''50.0'', totalGames = 2,
       avgDamage = Fin 15000, avgGold = Fin 9000\<rparr>]
   \<and> championName ` set (played ''P1'' example_sample) = {''Ahri''}
   \<and> length (filter win (games_on ''Ahri'' (played ''P1'' example_sample))) = 1
   \<and> length (filter (\<lambda>p. \<not> win p) (games_on ''Ahri'' (played ''P1'' example_sample))) = 1
   \<and> Math_round (js_div (Num (sum_list (map totalDamageDealtToChampions
                                           (games_on ''Ahri'' (played ''P1'' example_sample)))))
                         (Num 2)) = Fin 15000"
proof -
  note agg = champion_winrates_aggregate [of "''P1''" example_sample]
  have rows: "champion_winrates ''P1'' example_sample =
     [\<lparr>champion = ''Ahri'', wins = 1, losses = 1, winrate = ''50.0'', totalGames = 2,
       avgDamage = Fin 15000, avgGold = Fin 9000\<rparr>]"
    using agg by blast
  have "set (map champion (champion_winrates ''P1'' example_sample))
          = championName ` set (played ''P1'' example_sample)"
    using agg by blast
  then have c2: "championName ` set (played ''P1'' example_sample) = {''Ahri''}"
    by (simp add: rows)
  have "\<forall>r \<in> set (champion_winrates ''P1'' example_sample).
         wins r = length (filter win (games_on (champion r) (played ''P1'' example_sample)))
         \<and> losses r
             = length (filter (\<lambda>p. \<not> win p) (games_on (champion r) (played ''P1'' example_sample)))
         \<and> avgDamage r
             = Math_round
                 (js_div (Num (sum_list (map totalDamageDealtToChampions
                                           (games_on (champion r) (played ''P1'' example_sample)))))
                         (Num (totalGames r)))"
    using agg by blast
  then have c3: "length (filter win (games_on ''Ahri'' (played ''P1'' example_sample))) = 1"
      "length (filter (\<lambda>p. \<not> win p) (games_on ''Ahri'' (played ''P1'' example_sample))) = 1"
      "Math_round (js_div (Num (sum_list (map totalDamageDealtToChampions
                                           (games_on ''Ahri'' (played ''P1'' example_sample)))))
                         (Num 2)) = Fin 15000"
    unfolding rows by simp_all
  show ?thesis using rows c2 c3 by blast
qed


end
